theory Spec2Isabelle
  imports Complex_Main "HOL-Library.Multiset" "HOL-Library.Option_ord"
begin

section \<open>Visionboard: the canvas client (js/app.js) and the REST backend (backend/server.js)\<close>

text \<open>
  JavaScript numbers are modelled as \<^typ>\<open>real\<close>. The viewport arithmetic is read
  exactly, without rounding; the sizing of images and the resize, where a bound
  depends on the last bit, round every operation to a double (\<open>fl\<close> below).
  \<open>undefined\<close>/\<open>null\<close> are \<open>None\<close>. The DOM
  writes of \<open>updateViewport\<close>, \<open>updateMinimap\<close>, \<open>updateZoomDisplay\<close> and
  \<open>render\<close> only display the state and are left out; geometry read from the DOM
  (\<open>getBoundingClientRect\<close>, \<open>window.innerWidth\<close>) is the environment record
  \<open>env\<close>.
\<close>

subsection \<open>Data of the client\<close>

datatype jsval = JNum real | JStr string | JBool bool

type_synonym style = "(string \<times> jsval) list"

record item =
  it_id :: string
  it_type :: string
  it_x :: real
  it_y :: real
  it_width :: "real option"
  it_height :: "real option"
  it_content :: string
  it_style :: style
  it_z_index :: real

text \<open>The requests the client fires at the backend (\<open>fetch\<close>), in the order issued.\<close>

datatype api_call =
    CreateItem item
  | UpdateItem item
  | DeleteItem string

record env =
  rect_left :: real
  rect_top :: real
  rect_width :: real
  rect_height :: real
  inner_width :: real
  inner_height :: real

text \<open>
  The two functions handed to \<open>requestAnimationFrame\<close>: \<open>navigationLoop\<close> and
  \<open>joystickNavigationLoop\<close>.
\<close>

datatype raf_callback = NavLoop | JoyLoop

record resize_start =
  rs_x :: real
  rs_y :: real
  rs_width :: "real option"
  rs_height :: "real option"

record app =
  items :: "item list"
  canvasSize :: real
  viewport_x :: real
  viewport_y :: real
  zoom :: real
  minZoom :: real
  maxZoom :: real
  isPanning :: bool
  panStart :: "real \<times> real"
  pinchStart :: "real option"
  pinchZoomStart :: real
  selectedItem :: "string option"
  editingItemId :: "string option"
  pendingTextPosition :: "(real \<times> real) option"
  pendingImagePosition :: "(real \<times> real) option"
  resizingItem :: "string option"
  resizeStart :: resize_start
  textEditorState :: style
  textInput :: string
  textEditorShown :: bool
  keysPressed :: "string set"
  navigationSpeed :: real
  navigationSpeedFast :: real
  isNavigating :: bool
  isShiftPressed :: bool
  isSpacePressed :: bool
  joystickNavigating :: bool
  joystickActive :: bool
  joystickMouseDown :: bool
  joystickTouchId :: "nat option"
  joystickStartX :: real
  joystickStartY :: real
  joystickCurrentX :: real
  joystickCurrentY :: real
  joystickMaxDistance :: real
  rafQueue :: "raf_callback list"
  syncTimeout :: bool
  apiCalls :: "api_call list"

text \<open>
  \<open>rafQueue\<close> is the list of callbacks \<open>requestAnimationFrame\<close> holds for the
  next frame, in the order requested; \<open>syncTimeout\<close> says whether the debounce timer of
  \<open>scheduleSyncViewport\<close> is pending; \<open>apiCalls\<close> logs the requests sent.
  \<open>resizingItem\<close> holds a reference to an object of \<open>items\<close>; the model
  keeps its id (ids are generated fresh for every item) and writes through it into
  the list. A width or height that is \<open>undefined\<close> or \<open>NaN\<close> is \<open>None\<close>.
\<close>

text \<open>
  The state the constructor builds, before the board is loaded (\<open>joystickState\<close>
  as \<open>initMobileJoystick\<close> sets it; \<open>joystickNavigating\<close> starts out
  \<open>undefined\<close>, which is falsy).
\<close>

definition constructor :: "env \<Rightarrow> app" where
  "constructor e =
     \<lparr>items = [], canvasSize = 5000,
      viewport_x = 5000 / 2 - inner_width e / 2,
      viewport_y = 5000 / 2 - inner_height e / 2,
      zoom = 1, minZoom = 1 / 4, maxZoom = 2,
      isPanning = False, panStart = (0, 0),
      pinchStart = None, pinchZoomStart = 1,
      selectedItem = None, editingItemId = None,
      pendingTextPosition = None, pendingImagePosition = None,
      resizingItem = None,
      resizeStart = \<lparr>rs_x = 0, rs_y = 0, rs_width = Some 0, rs_height = Some 0\<rparr>,
      textEditorState =
        [(''fontSize'', JNum 24), (''color'', JStr ''#ffffff''), (''bold'', JBool False),
         (''italic'', JBool False), (''glow'', JBool False)],
      textInput = [], textEditorShown = False,
      keysPressed = {}, navigationSpeed = 8, navigationSpeedFast = 25,
      isNavigating = False, isShiftPressed = False, isSpacePressed = False,
      joystickNavigating = False, joystickActive = False, joystickMouseDown = False,
      joystickTouchId = None, joystickStartX = 0, joystickStartY = 0,
      joystickCurrentX = 0, joystickCurrentY = 0, joystickMaxDistance = 35,
      rafQueue = [], syncTimeout = False, apiCalls = []\<rparr>"

subsection \<open>Viewport: clamp, pan, zoom, reset\<close>

definition clampViewport :: "env \<Rightarrow> app \<Rightarrow> app" where
  "clampViewport e s =
     (let maxX = canvasSize s - rect_width e / zoom s;
          maxY = canvasSize s - rect_height e / zoom s
      in s\<lparr>viewport_x := max 0 (min maxX (viewport_x s)),
            viewport_y := max 0 (min maxY (viewport_y s))\<rparr>)"

definition scheduleSyncViewport :: "app \<Rightarrow> app" where
  "scheduleSyncViewport s = s\<lparr>syncTimeout := True\<rparr>"

definition startPan :: "real \<Rightarrow> real \<Rightarrow> app \<Rightarrow> app" where
  "startPan x y s = s\<lparr>isPanning := True, panStart := (x, y)\<rparr>"

definition doPan :: "env \<Rightarrow> real \<Rightarrow> real \<Rightarrow> app \<Rightarrow> app" where
  "doPan e x y s =
     (let dx = x - fst (panStart s);
          dy = y - snd (panStart s)
      in clampViewport e
           (s\<lparr>viewport_x := viewport_x s - dx / zoom s,
              viewport_y := viewport_y s - dy / zoom s,
              panStart := (x, y)\<rparr>))"

definition endPan :: "app \<Rightarrow> app" where
  "endPan s = scheduleSyncViewport (s\<lparr>isPanning := False\<rparr>)"


definition zoomIn :: "env \<Rightarrow> app \<Rightarrow> app" where
  "zoomIn e s =
     (let centerX = rect_width e / 2;
          centerY = rect_height e / 2;
          canvasX = viewport_x s + centerX / zoom s;
          canvasY = viewport_y s + centerY / zoom s;
          z = min (maxZoom s) (zoom s * (12 / 10))
      in scheduleSyncViewport
           (clampViewport e
              (s\<lparr>zoom := z,
                 viewport_x := canvasX - centerX / z,
                 viewport_y := canvasY - centerY / z\<rparr>)))"

definition zoomOut :: "env \<Rightarrow> app \<Rightarrow> app" where
  "zoomOut e s =
     (let centerX = rect_width e / 2;
          centerY = rect_height e / 2;
          canvasX = viewport_x s + centerX / zoom s;
          canvasY = viewport_y s + centerY / zoom s;
          z = max (minZoom s) (zoom s / (12 / 10))
      in scheduleSyncViewport
           (clampViewport e
              (s\<lparr>zoom := z,
                 viewport_x := canvasX - centerX / z,
                 viewport_y := canvasY - centerY / z\<rparr>)))"

definition resetView :: "env \<Rightarrow> app \<Rightarrow> app" where
  "resetView e s =
     scheduleSyncViewport
       (s\<lparr>viewport_x := canvasSize s / 2 - inner_width e / 2,
          viewport_y := canvasSize s / 2 - (inner_height e - 50) / 2,
          zoom := 1\<rparr>)"

text \<open>
  \<open>onMinimapClick\<close>: \<open>x\<close>, \<open>y\<close> are the click position inside the minimap, whose
  size is \<open>mw\<close> by \<open>mh\<close>.
\<close>

definition onMinimapClick :: "env \<Rightarrow> real \<Rightarrow> real \<Rightarrow> real \<Rightarrow> real \<Rightarrow> app \<Rightarrow> app" where
  "onMinimapClick e mw mh x y s =
     (let scaleX = canvasSize s / mw;
          scaleY = canvasSize s / mh;
          vpHalfWidth = (rect_width e / zoom s) / 2;
          vpHalfHeight = (rect_height e / zoom s) / 2
      in scheduleSyncViewport
           (clampViewport e
              (s\<lparr>viewport_x := x * scaleX - vpHalfWidth,
                 viewport_y := y * scaleY - vpHalfHeight\<rparr>)))"


subsection \<open>Touch: one finger pans, two fingers pinch\<close>

type_synonym touch = "real \<times> real"

definition getPinchDistance :: "touch \<Rightarrow> touch \<Rightarrow> real" where
  "getPinchDistance t0 t1 =
     (let dx = fst t0 - fst t1; dy = snd t0 - snd t1 in sqrt (dx * dx + dy * dy))"

text \<open>
  A touch event is the list of current touches; \<open>onItem\<close> says whether the target
  lies inside a canvas item. \<open>pinchStart\<close> is tested for truthiness: \<open>null\<close> and
  \<open>0\<close> are falsy.
\<close>

definition truthyNum :: "real option \<Rightarrow> bool" where
  "truthyNum v = (case v of None \<Rightarrow> False | Some r \<Rightarrow> r \<noteq> 0)"

fun onTouchStart :: "touch list \<Rightarrow> bool \<Rightarrow> app \<Rightarrow> app" where
  "onTouchStart [t] onItem s = (if \<not> onItem then startPan (fst t) (snd t) s else s)"
| "onTouchStart [t0, t1] onItem s =
     s\<lparr>pinchStart := Some (getPinchDistance t0 t1), pinchZoomStart := zoom s\<rparr>"
| "onTouchStart ts onItem s = s"

fun onTouchMove :: "env \<Rightarrow> touch list \<Rightarrow> app \<Rightarrow> app" where
  "onTouchMove e [t] s = (if isPanning s then doPan e (fst t) (snd t) s else s)"
| "onTouchMove e [t0, t1] s =
     (if truthyNum (pinchStart s)
      then let pinchCurrent = getPinchDistance t0 t1;
               scale = pinchCurrent / the (pinchStart s)
           in s\<lparr>zoom := max (minZoom s) (min (maxZoom s) (pinchZoomStart s * scale))\<rparr>
      else s)"
| "onTouchMove e ts s = s"

fun onTouchEnd :: "touch list \<Rightarrow> app \<Rightarrow> app" where
  "onTouchEnd [] s = (endPan s)\<lparr>pinchStart := None\<rparr>"
| "onTouchEnd ts s = s"

subsection \<open>Double-precision rounding\<close>

text \<open>
  Where a result depends on how the last bit is rounded, the arithmetic of the source
  is written out: every JavaScript operation returns the IEEE 754 double nearest to the
  exact result, ties going to the even significand. \<open>fl\<close> is that rounding, with 53
  significant bits and gradual underflow below \<open>2 powi (- 1022)\<close>. Overflow to
  \<open>Infinity\<close> is not modelled; no value below comes near \<open>2 powi 1024\<close>.
\<close>

text \<open>The number of binary digits of a natural number.\<close>

fun bits :: "nat \<Rightarrow> nat" where
  "bits n = (if n = 0 then 0 else Suc (bits (n div 2)))"

text \<open>The binary exponent of a positive number: \<open>2 powi expo x \<le> x < 2 powi (expo x + 1)\<close>.\<close>

definition expo :: "real \<Rightarrow> int" where
  "expo x = (if 1 \<le> x then int (bits (nat \<lfloor>x\<rfloor>)) - 1
             else - int (bits (nat \<lceil>1 / x\<rceil> - 1)))"

definition roundEven :: "real \<Rightarrow> int" where
  "roundEven y =
     (let f = \<lfloor>y\<rfloor>; d = y - of_int f
      in if d < 1 / 2 then f
         else if 1 / 2 < d then f + 1
         else if even f then f else f + 1)"

definition flpos :: "real \<Rightarrow> real" where
  "flpos x =
     (let e = max (expo x) (- 1022);
          q = 2 powi (e - 52)
      in of_int (roundEven (x / q)) * q)"

definition fl :: "real \<Rightarrow> real" where
  "fl x = (if x = 0 then 0 else if x < 0 then - flpos (- x) else flpos x)"

subsection \<open>Items: text editor, images, resize, delete\<close>

text \<open>
  \<open>a || b\<close> on numbers: \<open>a\<close> when it is truthy (defined and not 0), else
  \<open>b\<close>.
\<close>

definition orElse :: "real option \<Rightarrow> real \<Rightarrow> real" where
  "orElse a b = (if truthyNum a then the a else b)"

text \<open>
  \<open>String.prototype.trim\<close> on the ASCII white space and line terminators (tab, line
  feed, vertical tab, form feed, carriage return, space).
\<close>

definition isWhiteSpace :: "char \<Rightarrow> bool" where
  "isWhiteSpace c = (c \<in> {CHR 0x09, CHR 0x0A, CHR 0x0B, CHR 0x0C, CHR 0x0D, CHR '' ''})"

definition trim :: "string \<Rightarrow> string" where
  "trim t = rev (dropWhile isWhiteSpace (rev (dropWhile isWhiteSpace t)))"

fun findIndex :: "('a \<Rightarrow> bool) \<Rightarrow> 'a list \<Rightarrow> nat option" where
  "findIndex P [] = None"
| "findIndex P (x # xs) =
     (if P x then Some 0 else map_option Suc (findIndex P xs))"

text \<open>\<open>createItemAPI\<close>, \<open>updateItemAPI\<close>, \<open>deleteItemAPI\<close>: the request is logged.\<close>

definition createItemAPI :: "item \<Rightarrow> app \<Rightarrow> app" where
  "createItemAPI i s = s\<lparr>apiCalls := apiCalls s @ [CreateItem i]\<rparr>"

definition updateItemAPI :: "item \<Rightarrow> app \<Rightarrow> app" where
  "updateItemAPI i s = s\<lparr>apiCalls := apiCalls s @ [UpdateItem i]\<rparr>"

definition deleteItemAPI :: "string \<Rightarrow> app \<Rightarrow> app" where
  "deleteItemAPI i s = s\<lparr>apiCalls := apiCalls s @ [DeleteItem i]\<rparr>"

definition closeTextEditor :: "app \<Rightarrow> app" where
  "closeTextEditor s =
     s\<lparr>textEditorShown := False, editingItemId := None, pendingTextPosition := None\<rparr>"

text \<open>
  \<open>saveTextItem\<close>; \<open>newId\<close> is what \<open>generateId\<close> returns. The id in
  \<open>editingItemId\<close> is tested for truthiness (the empty string is falsy); \<open>find\<close>
  gives the first item with that id, which is then written in place.
\<close>

definition saveTextItem :: "string \<Rightarrow> app \<Rightarrow> app" where
  "saveTextItem newId s =
     (let text = trim (textInput s) in
      if text = [] then closeTextEditor s
      else if editingItemId s \<noteq> None \<and> editingItemId s \<noteq> Some []
      then (case findIndex (\<lambda>i. Some (it_id i) = editingItemId s) (items s) of
              Some k \<Rightarrow>
                (let item = (items s ! k)\<lparr>it_content := text, it_style := textEditorState s\<rparr>
                 in closeTextEditor (updateItemAPI item (s\<lparr>items := (items s)[k := item]\<rparr>)))
            | None \<Rightarrow> closeTextEditor s)
      else
        (let item = \<lparr>it_id = newId, it_type = ''text'',
                     it_x = orElse (map_option fst (pendingTextPosition s)) (canvasSize s / 2),
                     it_y = orElse (map_option snd (pendingTextPosition s)) (canvasSize s / 2),
                     it_width = None, it_height = None,
                     it_content = text, it_style = textEditorState s,
                     it_z_index = real (length (items s))\<rparr>
         in closeTextEditor (createItemAPI item (s\<lparr>items := items s @ [item]\<rparr>))))"

text \<open>
  \<open>addImageItem\<close>, at the time the image has loaded with the intrinsic size
  \<open>imgWidth\<close> by \<open>imgHeight\<close> (whole pixels, an unsigned 32-bit number each).
  \<open>x\<close> and \<open>y\<close> are \<open>None\<close> when the caller passes no position. The two
  divisions and the two products are rounded to doubles. A division by 0 is
  \<open>Infinity\<close> in the source, and \<open>Math.min\<close> then returns its other argument; the
  \<open>ratio\<close> below writes that out.
\<close>

definition addImageItem ::
  "string \<Rightarrow> string \<Rightarrow> real option \<Rightarrow> real option \<Rightarrow> nat \<Rightarrow> nat \<Rightarrow> app \<Rightarrow> app" where
  "addImageItem newId dataUrl x y imgWidth imgHeight s =
     (let width = real imgWidth;
          height = real imgHeight;
          maxSize = 400;
          ratio = (if width = 0 then fl (maxSize / height)
                   else if height = 0 then fl (maxSize / width)
                   else min (fl (maxSize / width)) (fl (maxSize / height)));
          width' = (if width > maxSize \<or> height > maxSize then fl (width * ratio) else width);
          height' = (if width > maxSize \<or> height > maxSize then fl (height * ratio) else height);
          item = \<lparr>it_id = newId, it_type = ''image'',
                  it_x = orElse x (orElse (map_option fst (pendingImagePosition s))
                                     (canvasSize s / 2)),
                  it_y = orElse y (orElse (map_option snd (pendingImagePosition s))
                                     (canvasSize s / 2)),
                  it_width = Some width', it_height = Some height',
                  it_content = dataUrl, it_style = [],
                  it_z_index = real (length (items s))\<rparr>
      in (createItemAPI item (s\<lparr>items := items s @ [item]\<rparr>))\<lparr>pendingImagePosition := None\<rparr>)"

definition selectItem :: "string \<Rightarrow> app \<Rightarrow> app" where
  "selectItem i s = s\<lparr>selectedItem := Some i\<rparr>"

definition deselectAll :: "app \<Rightarrow> app" where
  "deselectAll s = s\<lparr>selectedItem := None\<rparr>"

definition startResize :: "real \<Rightarrow> real \<Rightarrow> item \<Rightarrow> app \<Rightarrow> app" where
  "startResize clientX clientY i s =
     s\<lparr>resizingItem := Some (it_id i),
       resizeStart := \<lparr>rs_x = clientX, rs_y = clientY,
                       rs_width = it_width i, rs_height = it_height i\<rparr>\<rparr>"

text \<open>\<open>doResize\<close>; the subtraction, the division and the sum are rounded to doubles.\<close>

definition doResize :: "real \<Rightarrow> real \<Rightarrow> app \<Rightarrow> app" where
  "doResize clientX clientY s =
     (case resizingItem s of
        None \<Rightarrow> s
      | Some r \<Rightarrow>
          (let dx = fl (fl (clientX - rs_x (resizeStart s)) / zoom s);
               dy = fl (fl (clientY - rs_y (resizeStart s)) / zoom s)
           in s\<lparr>items :=
                  map (\<lambda>i. if it_id i = r
                           then i\<lparr>it_width :=
                                    map_option (\<lambda>w. max 50 (fl (w + dx)))
                                      (rs_width (resizeStart s)),
                                  it_height :=
                                    map_option (\<lambda>h. max 50 (fl (h + dy)))
                                      (rs_height (resizeStart s))\<rparr>
                           else i)
                    (items s)\<rparr>))"

definition deleteItem :: "string \<Rightarrow> app \<Rightarrow> app" where
  "deleteItem i s =
     (case findIndex (\<lambda>j. it_id j = i) (items s) of
        None \<Rightarrow> s
      | Some index \<Rightarrow>
          (deleteItemAPI i (s\<lparr>items := take index (items s) @ drop (Suc index) (items s)\<rparr>))
            \<lparr>selectedItem := None\<rparr>)"

subsection \<open>Keyboard and joystick navigation\<close>

text \<open>
  \<open>stopNavigation\<close> and \<open>stopJoystickNavigation\<close> call
  \<open>this.saveViewportPosition()\<close>, a method the class does not define: the call
  throws a \<open>TypeError\<close> after the flag has been cleared. A handler that can throw
  returns an \<open>outcome\<close>; the state it leaves behind is \<open>stateOf\<close>.
\<close>

datatype js_error = TypeError string

datatype outcome = Returned app | Threw js_error app

fun stateOf :: "outcome \<Rightarrow> app" where
  "stateOf (Returned s) = s"
| "stateOf (Threw err s) = s"

definition requestAnimationFrame :: "raf_callback \<Rightarrow> app \<Rightarrow> app" where
  "requestAnimationFrame cb s = s\<lparr>rafQueue := rafQueue s @ [cb]\<rparr>"

definition navigationLoop :: "env \<Rightarrow> app \<Rightarrow> app" where
  "navigationLoop e s =
     (if \<not> isNavigating s \<or> keysPressed s = {} then s\<lparr>isNavigating := False\<rparr>
      else
        (let speed = (if isShiftPressed s then navigationSpeedFast s else navigationSpeed s);
             s1 = (if ''up'' \<in> keysPressed s
                   then s\<lparr>viewport_y := max 0 (viewport_y s - speed)\<rparr> else s);
             s2 = (if ''down'' \<in> keysPressed s
                   then s1\<lparr>viewport_y := min (canvasSize s1 - inner_height e / zoom s1)
                                               (viewport_y s1 + speed)\<rparr>
                   else s1);
             s3 = (if ''left'' \<in> keysPressed s
                   then s2\<lparr>viewport_x := max 0 (viewport_x s2 - speed)\<rparr> else s2);
             s4 = (if ''right'' \<in> keysPressed s
                   then s3\<lparr>viewport_x := min (canvasSize s3 - inner_width e / zoom s3)
                                               (viewport_x s3 + speed)\<rparr>
                   else s3)
         in requestAnimationFrame NavLoop s4))"

definition startNavigation :: "env \<Rightarrow> app \<Rightarrow> app" where
  "startNavigation e s =
     (if isNavigating s then s else navigationLoop e (s\<lparr>isNavigating := True\<rparr>))"

definition stopNavigation :: "app \<Rightarrow> outcome" where
  "stopNavigation s =
     Threw (TypeError ''this.saveViewportPosition is not a function'')
       (s\<lparr>isNavigating := False\<rparr>)"

definition joystickNavigationLoop :: "env \<Rightarrow> app \<Rightarrow> app" where
  "joystickNavigationLoop e s =
     (if \<not> joystickNavigating s then s
      else
        (let speed = 12;
             dx = joystickCurrentX s;
             dy = joystickCurrentY s;
             s1 = (if \<bar>dx\<bar> > 1 / 10 \<or> \<bar>dy\<bar> > 1 / 10
                   then clampViewport e
                          (s\<lparr>viewport_x := viewport_x s + dx * speed,
                             viewport_y := viewport_y s + dy * speed\<rparr>)
                   else s)
         in requestAnimationFrame JoyLoop s1))"

definition startJoystickNavigation :: "env \<Rightarrow> app \<Rightarrow> app" where
  "startJoystickNavigation e s =
     (if joystickNavigating s then s
      else joystickNavigationLoop e (s\<lparr>joystickNavigating := True\<rparr>))"

definition stopJoystickNavigation :: "app \<Rightarrow> outcome" where
  "stopJoystickNavigation s =
     Threw (TypeError ''this.saveViewportPosition is not a function'')
       (s\<lparr>joystickNavigating := False\<rparr>)"

text \<open>
  One animation frame: the browser runs the callbacks requested since the last frame,
  in order; what they request in turn waits for the frame after.
\<close>

fun runCallback :: "env \<Rightarrow> raf_callback \<Rightarrow> app \<Rightarrow> app" where
  "runCallback e NavLoop s = navigationLoop e s"
| "runCallback e JoyLoop s = joystickNavigationLoop e s"

definition animationFrame :: "env \<Rightarrow> app \<Rightarrow> app" where
  "animationFrame e s = foldl (\<lambda>st cb. runCallback e cb st) (s\<lparr>rafQueue := []\<rparr>) (rafQueue s)"

text \<open>The joystick: \<open>cx\<close>, \<open>cy\<close> is the centre of the stick element.\<close>

definition updateJoystickPosition :: "real \<Rightarrow> real \<Rightarrow> app \<Rightarrow> app" where
  "updateJoystickPosition clientX clientY s =
     (let maxDist = joystickMaxDistance s;
          dx = clientX - joystickStartX s;
          dy = clientY - joystickStartY s;
          distance = sqrt (dx * dx + dy * dy);
          dx' = (if distance > maxDist then (dx / distance) * maxDist else dx);
          dy' = (if distance > maxDist then (dy / distance) * maxDist else dy)
      in s\<lparr>joystickCurrentX := dx' / maxDist, joystickCurrentY := dy' / maxDist\<rparr>)"

definition resetJoystick :: "app \<Rightarrow> outcome" where
  "resetJoystick s =
     stopJoystickNavigation
       (s\<lparr>joystickActive := False, joystickCurrentX := 0, joystickCurrentY := 0\<rparr>)"

definition onJoystickStart :: "env \<Rightarrow> nat \<Rightarrow> real \<Rightarrow> real \<Rightarrow> app \<Rightarrow> app" where
  "onJoystickStart e touchId cx cy s =
     startJoystickNavigation e
       (s\<lparr>joystickActive := True, joystickStartX := cx, joystickStartY := cy,
          joystickTouchId := Some touchId\<rparr>)"

text \<open>A touch list here is a list of (identifier, clientX, clientY).\<close>

definition onJoystickMove :: "(nat \<times> real \<times> real) list \<Rightarrow> app \<Rightarrow> app" where
  "onJoystickMove touches s =
     (if \<not> joystickActive s then s
      else case find (\<lambda>t. Some (fst t) = joystickTouchId s) touches of
             None \<Rightarrow> s
           | Some t \<Rightarrow> updateJoystickPosition (fst (snd t)) (snd (snd t)) s)"

definition onJoystickEnd :: "(nat \<times> real \<times> real) list \<Rightarrow> app \<Rightarrow> outcome" where
  "onJoystickEnd touches s =
     (if \<not> joystickActive s then Returned s
      else if (\<exists>t \<in> set touches. Some (fst t) = joystickTouchId s) then Returned s
      else resetJoystick s)"

definition onJoystickMouseStart :: "env \<Rightarrow> real \<Rightarrow> real \<Rightarrow> app \<Rightarrow> app" where
  "onJoystickMouseStart e cx cy s =
     startJoystickNavigation e
       (s\<lparr>joystickActive := True, joystickStartX := cx, joystickStartY := cy,
          joystickMouseDown := True\<rparr>)"

definition onJoystickMouseMove :: "real \<Rightarrow> real \<Rightarrow> app \<Rightarrow> app" where
  "onJoystickMouseMove clientX clientY s =
     (if \<not> joystickActive s \<or> \<not> joystickMouseDown s then s
      else updateJoystickPosition clientX clientY s)"

definition onJoystickMouseEnd :: "app \<Rightarrow> outcome" where
  "onJoystickMouseEnd s =
     (if joystickMouseDown s then resetJoystick (s\<lparr>joystickMouseDown := False\<rparr>)
      else Returned s)"

text \<open>Keyboard events: \<open>key\<close>, \<open>code\<close>, the modifier flags and the target's tag.\<close>

record key_event =
  ke_key :: string
  ke_code :: string
  ke_shiftKey :: bool
  ke_ctrlKey :: bool
  ke_metaKey :: bool
  ke_targetTag :: string

text \<open>\<open>toLowerCase\<close> on the ASCII letters.\<close>

definition toLowerCase :: "string \<Rightarrow> string" where
  "toLowerCase t =
     map (\<lambda>c. case map_of (zip ''ABCDEFGHIJKLMNOPQRSTUVWXYZ'' ''abcdefghijklmnopqrstuvwxyz'') c of
                Some l \<Rightarrow> l
              | None \<Rightarrow> c) t"

definition normalizeNavKey :: "string \<Rightarrow> string" where
  "normalizeNavKey k =
     (case map_of [(''w'', ''up''), (''arrowup'', ''up''), (''s'', ''down''),
                   (''arrowdown'', ''down''), (''a'', ''left''), (''arrowleft'', ''left''),
                   (''d'', ''right''), (''arrowright'', ''right'')] (toLowerCase k) of
        Some v \<Rightarrow> v
      | None \<Rightarrow> toLowerCase k)"

definition isNavKeyEvent :: "key_event \<Rightarrow> bool" where
  "isNavKeyEvent ev =
     (toLowerCase (ke_key ev) \<in> set [''w'', ''a'', ''s'', ''d'']
      \<or> ke_key ev \<in> set [''ArrowUp'', ''ArrowDown'', ''ArrowLeft'', ''ArrowRight''])"

definition openTextEditor :: "real \<Rightarrow> real \<Rightarrow> app \<Rightarrow> app" where
  "openTextEditor x y s =
     s\<lparr>pendingTextPosition := Some (x, y), editingItemId := None, textInput := [],
       textEditorState :=
         [(''fontSize'', JNum 24), (''color'', JStr ''#ffffff''), (''bold'', JBool False),
          (''italic'', JBool False), (''glow'', JBool False)],
       textEditorShown := True\<rparr>"

definition openTextEditorAtCenter :: "env \<Rightarrow> app \<Rightarrow> app" where
  "openTextEditorAtCenter e s =
     openTextEditor (viewport_x s + rect_width e / 2 / zoom s)
                    (viewport_y s + rect_height e / 2 / zoom s) s"

text \<open>
  \<open>onKeyDown\<close>. The B key opens the file dialog (\<open>triggerImageUpload\<close>), which
  changes nothing here; hiding the context menu and the todo editor are DOM writes.
\<close>

definition onKeyDown :: "env \<Rightarrow> key_event \<Rightarrow> app \<Rightarrow> app" where
  "onKeyDown e ev s =
     (if ke_targetTag ev = ''INPUT'' \<or> ke_targetTag ev = ''TEXTAREA'' then s
      else
        (let key = toLowerCase (ke_key ev);
             s1 = (if ke_shiftKey ev then s\<lparr>isShiftPressed := True\<rparr> else s)
         in if ke_code ev = ''Space'' \<and> \<not> isSpacePressed s1
            then s1\<lparr>isSpacePressed := True\<rparr>
            else if isNavKeyEvent ev
            then (let navKey = normalizeNavKey (ke_key ev)
                  in if navKey \<notin> keysPressed s1
                     then startNavigation e (s1\<lparr>keysPressed := insert navKey (keysPressed s1)\<rparr>)
                     else s1)
            else if key = ''t'' \<and> \<not> ke_ctrlKey ev \<and> \<not> ke_metaKey ev
            then openTextEditorAtCenter e s1
            else if key = ''b'' \<and> \<not> ke_ctrlKey ev \<and> \<not> ke_metaKey ev
            then s1
            else if key = ''r'' \<and> \<not> ke_ctrlKey ev \<and> \<not> ke_metaKey ev
            then resetView e s1
            else
              (let s2 = (if (ke_key ev = ''Delete'' \<or> ke_key ev = ''Backspace'')
                            \<and> selectedItem s1 \<noteq> None \<and> selectedItem s1 \<noteq> Some []
                         then deleteItem (the (selectedItem s1)) s1 else s1)
               in if ke_key ev = ''Escape'' then closeTextEditor (deselectAll s2) else s2)))"

definition onKeyUp :: "key_event \<Rightarrow> app \<Rightarrow> outcome" where
  "onKeyUp ev s =
     (let s1 = (if ke_code ev = ''Space'' then s\<lparr>isSpacePressed := False\<rparr> else s);
          s2 = (if ke_key ev = ''Shift'' then s1\<lparr>isShiftPressed := False\<rparr> else s1)
      in if isNavKeyEvent ev
         then (let navKey = normalizeNavKey (ke_key ev);
                   s3 = s2\<lparr>keysPressed := keysPressed s2 - {navKey}\<rparr>
               in if keysPressed s3 = {} then stopNavigation s3 else Returned s3)
         else Returned s2)"

subsection \<open>The bound on the origin, in the words of the specification\<close>

text \<open>
  \<open>0 \<le> origin \<le> canvasExtent - visibleExtent / zoom\<close> on both axes, the origin
  pinned to 0 when the visible extent exceeds the canvas. This is what
  \<open>clampViewport\<close> establishes.
\<close>

definition originInBounds :: "env \<Rightarrow> app \<Rightarrow> bool" where
  "originInBounds e s =
     (0 \<le> viewport_x s \<and> viewport_x s \<le> max 0 (canvasSize s - rect_width e / zoom s) \<and>
      0 \<le> viewport_y s \<and> viewport_y s \<le> max 0 (canvasSize s - rect_height e / zoom s))"

section \<open>The backend (backend/server.js)\<close>

text \<open>
  Time is \<open>Date.now()\<close> in milliseconds; a request is served at one instant
  \<open>now\<close>. The SQLite tables are lists of rows in insertion order; \<open>NULL\<close> is
  \<open>None\<close>. The engine's checks that the handlers can trip are modelled: the primary
  key of a table is unique, \<open>x\<close> and \<open>y\<close> are \<open>NOT NULL\<close>, and a row's
  \<open>board_id\<close> must name a board. \<open>JSON.stringify\<close> and \<open>JSON.parse\<close> belong
  to the runtime: the stored text is modelled as the value it encodes (\<open>None\<close> for
  \<open>null\<close>), which \<open>JSON_parse\<close> gives back.
\<close>

subsection \<open>Sessions\<close>

datatype json_text = JsonText "style option"

definition JSON_stringify :: "style option \<Rightarrow> json_text" where
  "JSON_stringify v = JsonText v"

fun JSON_parse :: "json_text \<Rightarrow> style option" where
  "JSON_parse (JsonText v) = v"

record board_row =
  b_id :: string
  b_name :: string
  b_viewport_x :: real
  b_viewport_y :: real
  b_zoom :: real
  b_created_at :: int
  b_updated_at :: int

record item_row =
  r_id :: string
  r_board_id :: string
  r_type :: string
  r_x :: real
  r_y :: real
  r_width :: "real option"
  r_height :: "real option"
  r_content :: "string option"
  r_style :: "json_text option"
  r_z_index :: "int option"
  r_created_at :: int
  r_updated_at :: int

record todo_row =
  t_id :: string
  t_board_id :: string
  t_text :: string
  t_completed :: int
  t_priority :: string
  t_created_at :: int
  t_updated_at :: int

record server =
  authPassword :: string
  sessions :: "string \<rightharpoonup> int"
  boardsTable :: "board_row list"
  itemsTable :: "item_row list"
  todosTable :: "todo_row list"

text \<open>What a handler sends back: the status and the JSON body.\<close>

record board_view =
  bv_id :: string
  bv_name :: string
  bv_viewport :: "real \<times> real"
  bv_zoom :: real

record item_view =
  iv_id :: string
  iv_board_id :: string
  iv_type :: string
  iv_x :: real
  iv_y :: real
  iv_width :: "real option"
  iv_height :: "real option"
  iv_content :: "string option"
  iv_style :: "style option"
  iv_z_index :: "int option"
  iv_created_at :: int
  iv_updated_at :: int

record todo_view =
  tv_id :: string
  tv_board_id :: string
  tv_text :: string
  tv_completed :: bool
  tv_priority :: string
  tv_created_at :: int
  tv_updated_at :: int

text \<open>
  \<open>JsonError msg needsAuth\<close> is \<open>{error: msg}\<close>, with \<open>needsAuth: true\<close> when
  the flag is set.
\<close>

datatype body =
    JsonError string bool
  | Success
  | LoginOk string
  | Synced int
  | BoardData board_view "item_view list" "todo_view list"

datatype response = Response nat body

record request =
  header_token :: "string option"
  query_token :: "string option"

definition truthyStr :: "string option \<Rightarrow> bool" where
  "truthyStr v = (case v of None \<Rightarrow> False | Some t \<Rightarrow> t \<noteq> [])"

definition requestToken :: "request \<Rightarrow> string option" where
  "requestToken req = (if truthyStr (header_token req) then header_token req else query_token req)"

definition requireAuth :: "request \<Rightarrow> int \<Rightarrow> server \<Rightarrow> response + server" where
  "requireAuth req now srv =
     (case requestToken req of
        None \<Rightarrow> Inl (Response 401 (JsonError ''Unauthorized'' True))
      | Some token \<Rightarrow>
          if token = [] \<or> sessions srv token = None
          then Inl (Response 401 (JsonError ''Unauthorized'' True))
          else Inr (srv\<lparr>sessions := (sessions srv)(token \<mapsto> now + 24 * 60 * 60 * 1000)\<rparr>))"

text \<open>The hourly \<open>setInterval\<close> callback.\<close>

definition sweepSessions :: "int \<Rightarrow> server \<Rightarrow> server" where
  "sweepSessions now srv =
     srv\<lparr>sessions :=
           (\<lambda>token. case sessions srv token of
                       None \<Rightarrow> None
                     | Some expiry \<Rightarrow> if expiry < now then None else Some expiry)\<rparr>"

text \<open>\<open>POST /api/auth/login\<close>; \<open>token\<close> is what \<open>generateToken\<close> returns.\<close>

definition login :: "string option \<Rightarrow> string \<Rightarrow> int \<Rightarrow> server \<Rightarrow> response \<times> server" where
  "login password token now srv =
     (if password = Some (authPassword srv)
      then (Response 200 (LoginOk token),
            srv\<lparr>sessions := (sessions srv)(token \<mapsto> now + 24 * 60 * 60 * 1000)\<rparr>)
      else (Response 401 (JsonError ''Falsches Passwort'' False), srv))"

subsection \<open>PUT /api/items/:id\<close>

text \<open>A field of a JSON body: left out, \<open>null\<close>, or a value.\<close>

datatype 'a field = Undefined | Null | Val 'a

record item_update =
  u_x :: "real field"
  u_y :: "real field"
  u_width :: "real field"
  u_height :: "real field"
  u_content :: "string field"
  u_style :: "style field"
  u_z_index :: "int field"

datatype sql_error = NotNullConstraint | PrimaryKeyConstraint | ForeignKeyConstraint

fun errorMessage :: "sql_error \<Rightarrow> string" where
  "errorMessage NotNullConstraint = ''NOT NULL constraint failed''"
| "errorMessage PrimaryKeyConstraint = ''UNIQUE constraint failed''"
| "errorMessage ForeignKeyConstraint = ''FOREIGN KEY constraint failed''"

text \<open>
  The \<open>SET\<close> list built from the body: a column is assigned exactly when its field
  is not \<open>undefined\<close>; \<open>updated_at\<close> always.
\<close>

definition setColumn :: "'a field \<Rightarrow> 'a option \<Rightarrow> 'a option" where
  "setColumn f old = (case f of Undefined \<Rightarrow> old | Null \<Rightarrow> None | Val v \<Rightarrow> Some v)"

definition setRequired :: "'a field \<Rightarrow> 'a \<Rightarrow> 'a" where
  "setRequired f old = (case f of Val v \<Rightarrow> v | _ \<Rightarrow> old)"

definition applyItemUpdate :: "item_update \<Rightarrow> int \<Rightarrow> item_row \<Rightarrow> item_row" where
  "applyItemUpdate b now r =
     r\<lparr>r_x := setRequired (u_x b) (r_x r),
       r_y := setRequired (u_y b) (r_y r),
       r_width := setColumn (u_width b) (r_width r),
       r_height := setColumn (u_height b) (r_height r),
       r_content := setColumn (u_content b) (r_content r),
       r_style := (case u_style b of
                     Undefined \<Rightarrow> r_style r
                   | Null \<Rightarrow> Some (JSON_stringify None)
                   | Val v \<Rightarrow> Some (JSON_stringify (Some v))),
       r_z_index := setColumn (u_z_index b) (r_z_index r),
       r_updated_at := now\<rparr>"

definition updateItemRows ::
  "string \<Rightarrow> item_update \<Rightarrow> int \<Rightarrow> item_row list \<Rightarrow> sql_error + item_row list" where
  "updateItemRows i b now tbl =
     (if (u_x b = Null \<or> u_y b = Null) \<and> i \<in> r_id ` set tbl
      then Inl NotNullConstraint
      else Inr (map (\<lambda>r. if r_id r = i then applyItemUpdate b now r else r) tbl))"

definition putItem ::
  "request \<Rightarrow> string \<Rightarrow> item_update \<Rightarrow> int \<Rightarrow> server \<Rightarrow> response \<times> server" where
  "putItem req i b now srv =
     (case requireAuth req now srv of
        Inl denied \<Rightarrow> (denied, srv)
      | Inr srv1 \<Rightarrow>
          (case updateItemRows i b now (itemsTable srv1) of
             Inl err \<Rightarrow> (Response 500 (JsonError (errorMessage err) False), srv1)
           | Inr tbl \<Rightarrow> (Response 200 Success, srv1\<lparr>itemsTable := tbl\<rparr>)))"

subsection \<open>POST /api/sync and GET /api/board/:id\<close>

text \<open>
  The payload of a full sync, as the client builds it from its item and todo objects.
  Fields the handler guards with \<open>||\<close> or that an object may lack are optional.
\<close>

record sync_item =
  si_id :: string
  si_type :: string
  si_x :: real
  si_y :: real
  si_width :: "real option"
  si_height :: "real option"
  si_content :: "string option"
  si_style :: "style option"
  si_z_index :: "int option"
  si_created_at :: "int option"
  si_updated_at :: "int option"

record sync_todo =
  st_id :: string
  st_text :: string
  st_completed :: "bool option"
  st_priority :: "string option"
  st_created_at :: "int option"
  st_updated_at :: "int option"

record sync_body =
  sb_board_id :: "string option"
  sb_items :: "sync_item list option"
  sb_todos :: "sync_todo list option"
  sb_viewport :: "(real \<times> real \<times> real) option"

text \<open>\<open>a || b\<close> on integers: \<open>undefined\<close> and \<open>0\<close> are falsy.\<close>

definition orInt :: "int option \<Rightarrow> int \<Rightarrow> int" where
  "orInt a b = (case a of None \<Rightarrow> b | Some v \<Rightarrow> if v = 0 then b else v)"

text \<open>The row \<open>insertItem.run\<close> is given for one payload item, and likewise for a todo.\<close>

definition itemRowOf :: "string \<Rightarrow> int \<Rightarrow> sync_item \<Rightarrow> item_row" where
  "itemRowOf board_id now item =
     \<lparr>r_id = si_id item, r_board_id = board_id, r_type = si_type item,
      r_x = si_x item, r_y = si_y item,
      r_width = si_width item, r_height = si_height item, r_content = si_content item,
      r_style = Some (JSON_stringify
                        (Some (case si_style item of None \<Rightarrow> [] | Some st \<Rightarrow> st))),
      r_z_index = Some (orInt (si_z_index item) 0),
      r_created_at = orInt (si_created_at item) now,
      r_updated_at = now\<rparr>"

definition todoRowOf :: "string \<Rightarrow> int \<Rightarrow> sync_todo \<Rightarrow> todo_row" where
  "todoRowOf board_id now todo =
     \<lparr>t_id = st_id todo, t_board_id = board_id, t_text = st_text todo,
      t_completed = (if st_completed todo = Some True then 1 else 0),
      t_priority = (if truthyStr (st_priority todo) then the (st_priority todo) else ''medium''),
      t_created_at = orInt (st_created_at todo) now,
      t_updated_at = now\<rparr>"

definition insertItemRow ::
  "board_row list \<Rightarrow> item_row \<Rightarrow> item_row list \<Rightarrow> sql_error + item_row list" where
  "insertItemRow bs row tbl =
     (if r_id row \<in> r_id ` set tbl then Inl PrimaryKeyConstraint
      else if r_board_id row \<notin> b_id ` set bs then Inl ForeignKeyConstraint
      else Inr (tbl @ [row]))"

definition insertTodoRow ::
  "board_row list \<Rightarrow> todo_row \<Rightarrow> todo_row list \<Rightarrow> sql_error + todo_row list" where
  "insertTodoRow bs row tbl =
     (if t_id row \<in> t_id ` set tbl then Inl PrimaryKeyConstraint
      else if t_board_id row \<notin> b_id ` set bs then Inl ForeignKeyConstraint
      else Inr (tbl @ [row]))"

fun insertItems ::
  "board_row list \<Rightarrow> string \<Rightarrow> int \<Rightarrow> sync_item list \<Rightarrow> item_row list
     \<Rightarrow> sql_error + item_row list" where
  "insertItems bs board_id now [] tbl = Inr tbl"
| "insertItems bs board_id now (item # rest) tbl =
     (case insertItemRow bs (itemRowOf board_id now item) tbl of
        Inl err \<Rightarrow> Inl err
      | Inr tbl' \<Rightarrow> insertItems bs board_id now rest tbl')"

fun insertTodos ::
  "board_row list \<Rightarrow> string \<Rightarrow> int \<Rightarrow> sync_todo list \<Rightarrow> todo_row list
     \<Rightarrow> sql_error + todo_row list" where
  "insertTodos bs board_id now [] tbl = Inr tbl"
| "insertTodos bs board_id now (todo # rest) tbl =
     (case insertTodoRow bs (todoRowOf board_id now todo) tbl of
        Inl err \<Rightarrow> Inl err
      | Inr tbl' \<Rightarrow> insertTodos bs board_id now rest tbl')"

definition syncBoardId :: "sync_body \<Rightarrow> string" where
  "syncBoardId b = (case sb_board_id b of None \<Rightarrow> ''default'' | Some i \<Rightarrow> i)"

text \<open>The transaction: an error of the engine aborts it and leaves the tables as they were.\<close>

definition syncTransaction :: "sync_body \<Rightarrow> int \<Rightarrow> server \<Rightarrow> sql_error + server" where
  "syncTransaction b now srv =
     (let board_id = syncBoardId b;
          srv1 = (case sb_viewport b of
                    None \<Rightarrow> srv
                  | Some (x, y, z) \<Rightarrow>
                      srv\<lparr>boardsTable :=
                            map (\<lambda>r. if b_id r = board_id
                                     then r\<lparr>b_viewport_x := x, b_viewport_y := y, b_zoom := z,
                                            b_updated_at := now\<rparr>
                                     else r)
                              (boardsTable srv)\<rparr>)
      in case insertItems (boardsTable srv1) board_id now
                (case sb_items b of None \<Rightarrow> [] | Some l \<Rightarrow> l)
                (filter (\<lambda>r. r_board_id r \<noteq> board_id) (itemsTable srv1)) of
           Inl err \<Rightarrow> Inl err
         | Inr itbl \<Rightarrow>
             (case insertTodos (boardsTable srv1) board_id now
                     (case sb_todos b of None \<Rightarrow> [] | Some l \<Rightarrow> l)
                     (filter (\<lambda>r. t_board_id r \<noteq> board_id) (todosTable srv1)) of
                Inl err \<Rightarrow> Inl err
              | Inr ttbl \<Rightarrow> Inr (srv1\<lparr>itemsTable := itbl, todosTable := ttbl\<rparr>)))"

definition postSync :: "request \<Rightarrow> sync_body \<Rightarrow> int \<Rightarrow> server \<Rightarrow> response \<times> server" where
  "postSync req b now srv =
     (case requireAuth req now srv of
        Inl denied \<Rightarrow> (denied, srv)
      | Inr srv1 \<Rightarrow>
          (case syncTransaction b now srv1 of
             Inl err \<Rightarrow> (Response 500 (JsonError (errorMessage err) False), srv1)
           | Inr srv2 \<Rightarrow> (Response 200 (Synced now), srv2)))"

text \<open>
  A board inserted with its id and name only takes the column defaults; the engine's
  \<open>strftime('%s', 'now') * 1000\<close> is the time cut to whole seconds.
\<close>

definition newBoardRow :: "string \<Rightarrow> string \<Rightarrow> int \<Rightarrow> board_row" where
  "newBoardRow i name now =
     \<lparr>b_id = i, b_name = name, b_viewport_x = 0, b_viewport_y = 0, b_zoom = 1,
      b_created_at = (now div 1000) * 1000, b_updated_at = (now div 1000) * 1000\<rparr>"

definition itemView :: "item_row \<Rightarrow> item_view" where
  "itemView r =
     \<lparr>iv_id = r_id r, iv_board_id = r_board_id r, iv_type = r_type r,
      iv_x = r_x r, iv_y = r_y r, iv_width = r_width r, iv_height = r_height r,
      iv_content = r_content r,
      iv_style = (case r_style r of None \<Rightarrow> Some [] | Some t \<Rightarrow> JSON_parse t),
      iv_z_index = r_z_index r,
      iv_created_at = r_created_at r, iv_updated_at = r_updated_at r\<rparr>"

definition todoView :: "todo_row \<Rightarrow> todo_view" where
  "todoView t =
     \<lparr>tv_id = t_id t, tv_board_id = t_board_id t, tv_text = t_text t,
      tv_completed = (t_completed t \<noteq> 0), tv_priority = t_priority t,
      tv_created_at = t_created_at t, tv_updated_at = t_updated_at t\<rparr>"

text \<open>
  \<open>ORDER BY z_index\<close> and \<open>ORDER BY created_at DESC\<close> are sorts by key (\<open>NULL\<close>
  first); the order the engine gives rows with equal keys is not relied on below.
\<close>

definition getBoard :: "request \<Rightarrow> string \<Rightarrow> int \<Rightarrow> server \<Rightarrow> response \<times> server" where
  "getBoard req boardId now srv =
     (case requireAuth req now srv of
        Inl denied \<Rightarrow> (denied, srv)
      | Inr srv1 \<Rightarrow>
          (let srv2 = (if boardId \<in> b_id ` set (boardsTable srv1) then srv1
                       else srv1\<lparr>boardsTable :=
                                   boardsTable srv1 @ [newBoardRow boardId ''Neues Board'' now]\<rparr>)
           in case find (\<lambda>r. b_id r = boardId) (boardsTable srv2) of
                None \<Rightarrow> (Response 500 (JsonError ''Cannot read properties of undefined'' False), srv2)
              | Some board \<Rightarrow>
                  (let rows = sort_key r_z_index
                                (filter (\<lambda>r. r_board_id r = boardId) (itemsTable srv2));
                       todos = sort_key (\<lambda>t. - t_created_at t)
                                 (filter (\<lambda>t. t_board_id t = boardId) (todosTable srv2))
                   in (Response 200
                         (BoardData
                            \<lparr>bv_id = b_id board, bv_name = b_name board,
                             bv_viewport = (b_viewport_x board, b_viewport_y board),
                             bv_zoom = b_zoom board\<rparr>
                            (map itemView rows)
                            (map todoView todos)),
                       srv2))))"

subsection \<open>Sample inputs for the concrete runs below\<close>

abbreviation sampleEnv :: env where
  "sampleEnv \<equiv>
     \<lparr>rect_left = 0, rect_top = 0, rect_width = 1000, rect_height = 700,
        inner_width = 1000, inner_height = 750\<rparr>"

abbreviation sampleKeyD :: key_event where
  "sampleKeyD \<equiv>
     \<lparr>ke_key = ''d'', ke_code = ''KeyD'', ke_shiftKey = False, ke_ctrlKey = False,
        ke_metaKey = False, ke_targetTag = ''BODY''\<rparr>"

abbreviation sampleItemA :: item where
  "sampleItemA \<equiv>
     \<lparr>it_id = ''a'', it_type = ''text'', it_x = 10, it_y = 20, it_width = None,
          it_height = None, it_content = ''Goal'', it_style = [], it_z_index = 0\<rparr>"

abbreviation sampleItemB :: item where
  "sampleItemB \<equiv>
     \<lparr>it_id = ''b'', it_type = ''text'', it_x = 30, it_y = 40, it_width = None,
          it_height = None, it_content = ''Plan'', it_style = [], it_z_index = 1\<rparr>"

abbreviation sampleRequest :: request where
  "sampleRequest \<equiv>
     \<lparr>header_token = Some ''tok'', query_token = None\<rparr>"

abbreviation sampleServer :: server where
  "sampleServer \<equiv>
     \<lparr>authPassword = ''pw'', sessions = Map.empty,
        boardsTable = [newBoardRow ''default'' ''Mein Visionboard'' 0],
        itemsTable = [], todosTable = []\<rparr>"

abbreviation sampleRow :: item_row where
  "sampleRow \<equiv>
     \<lparr>r_id = ''a'', r_board_id = ''default'', r_type = ''text'', r_x = 100, r_y = 200,
            r_width = None, r_height = None, r_content = Some ''Goal'',
            r_style = Some (JSON_stringify (Some [(''bold'', JBool True)])),
            r_z_index = Some 0, r_created_at = 1000, r_updated_at = 1000\<rparr>"

abbreviation samplePayloadItem :: sync_item where
  "samplePayloadItem \<equiv>
     \<lparr>si_id = ''a'', si_type = ''text'', si_x = 100, si_y = 200, si_width = None,
            si_height = None, si_content = Some ''Goal'',
            si_style = Some [(''bold'', JBool True)], si_z_index = Some 0,
            si_created_at = Some 1000, si_updated_at = Some 1000\<rparr>"

abbreviation samplePayloadTodo :: sync_todo where
  "samplePayloadTodo \<equiv>
     \<lparr>st_id = ''t'', st_text = ''Run'', st_completed = Some True,
            st_priority = Some ''high'', st_created_at = Some 1000,
            st_updated_at = Some 1000\<rparr>"

abbreviation sampleServerWithItem :: server where
  "sampleServerWithItem \<equiv>
     \<lparr>authPassword = ''pw'', sessions = [''tok'' \<mapsto> 2000000],
        boardsTable = [newBoardRow ''default'' ''Mein Visionboard'' 0],
        itemsTable =
          [sampleRow],
        todosTable = []\<rparr>"

abbreviation sampleServerLoggedIn :: server where
  "sampleServerLoggedIn \<equiv>
     \<lparr>authPassword = ''pw'', sessions = [''tok'' \<mapsto> 90000000],
        boardsTable = [newBoardRow ''default'' ''Mein Visionboard'' 0],
        itemsTable = [], todosTable = []\<rparr>"

abbreviation samplePayload :: sync_body where
  "samplePayload \<equiv>
     \<lparr>sb_board_id = Some ''default'', sb_items = Some [samplePayloadItem],
          sb_todos = Some [samplePayloadTodo], sb_viewport = Some (0, 0, 1)\<rparr>"

abbreviation atRightEdge :: app where
  "atRightEdge \<equiv>
     onMinimapClick sampleEnv 200 200 200 100 (constructor sampleEnv)"

abbreviation afterPinch :: app where
  "afterPinch \<equiv>
     onTouchMove sampleEnv [(0, 0), (200, 0)]
       (onTouchStart [(0, 0), (400, 0)] False atRightEdge)"

abbreviation afterKeyDown :: app where
  "afterKeyDown \<equiv>
     onKeyDown sampleEnv sampleKeyD (constructor sampleEnv)"

abbreviation afterKeyUp :: app where
  "afterKeyUp \<equiv>
     stateOf (onKeyUp sampleKeyD afterKeyDown)"

abbreviation afterKeyDownAgain :: app where
  "afterKeyDownAgain \<equiv>
     onKeyDown sampleEnv sampleKeyD afterKeyUp"

abbreviation afterStickPress :: app where
  "afterStickPress \<equiv>
     onJoystickMouseStart sampleEnv 60 600 (constructor sampleEnv)"

abbreviation afterStickRelease :: app where
  "afterStickRelease \<equiv>
     stateOf (onJoystickMouseEnd afterStickPress)"

abbreviation afterStickPressAgain :: app where
  "afterStickPressAgain \<equiv>
     onJoystickMouseStart sampleEnv 60 600 afterStickRelease"

abbreviation afterLogin :: server where
  "afterLogin \<equiv>
     snd (login (Some ''pw'') ''tok'' 1000 sampleServer)"

abbreviation afterSync :: server where
  "afterSync \<equiv>
     snd (postSync sampleRequest samplePayload 5000 sampleServerLoggedIn)"

abbreviation editorOnItemA :: app where
  "editorOnItemA \<equiv>
     (constructor sampleEnv)
       \<lparr>items := [sampleItemA], editingItemId := Some ''a'', textInput := ''  '',
        textEditorShown := True\<rparr>"

abbreviation twoItemsFirstSelected :: app where
  "twoItemsFirstSelected \<equiv>
     (constructor sampleEnv)\<lparr>items := [sampleItemA, sampleItemB], selectedItem := Some ''a''\<rparr>"


abbreviation offCanvas :: app where
  "offCanvas \<equiv>
     (constructor sampleEnv) \<lparr>viewport_x := 4800, viewport_y := - 30, zoom := 1 / 2\<rparr>"

abbreviation sampleItemView :: item_view where
  "sampleItemView \<equiv>
     \<lparr>iv_id = ''a'', iv_board_id = ''default'', iv_type = ''text'', iv_x = 100,
      iv_y = 200, iv_width = None, iv_height = None, iv_content = Some ''Goal'',
      iv_style = Some [(''bold'', JBool True)], iv_z_index = Some 0,
      iv_created_at = 1000, iv_updated_at = 5000\<rparr>"

abbreviation sampleTodoView :: todo_view where
  "sampleTodoView \<equiv>
     \<lparr>tv_id = ''t'', tv_board_id = ''default'', tv_text = ''Run'', tv_completed = True,
      tv_priority = ''high'', tv_created_at = 1000, tv_updated_at = 5000\<rparr>"

abbreviation sampleBoardView :: board_view where
  "sampleBoardView \<equiv>
     \<lparr>bv_id = ''default'', bv_name = ''Mein Visionboard'', bv_viewport = (0, 0),
      bv_zoom = 1\<rparr>"

section \<open>Properties of the viewport\<close>

lemma getPinchDistance_horizontal: "getPinchDistance (a, b) (c, b) = \<bar>a - c\<bar>"
  by (simp add: getPinchDistance_def)

text \<open>
  C6. The viewport clamp is idempotent: for every origin, every (nonzero) zoom and
  every viewport size, clamping twice gives the same state, hence the same origin, as
  clamping once.
\<close>

theorem clampViewport_idempotent:
  "zoom s \<noteq> 0 \<Longrightarrow> clampViewport e (clampViewport e s) = clampViewport e s"
  by (simp add: clampViewport_def Let_def max_def min_def)

theorem clampViewport_idempotent_witness:
  "zoom offCanvas \<noteq> 0
   \<and> clampViewport sampleEnv
        (clampViewport sampleEnv offCanvas)
     = (constructor sampleEnv)
          \<lparr>viewport_x := 3000, viewport_y := 0, zoom := 1 / 2\<rparr>"
  using clampViewport_idempotent
    [of "offCanvas"
        "sampleEnv"]
  by (simp add: clampViewport_def constructor_def)




lemma clampViewport_originInBounds: "originInBounds e (clampViewport e s)"
  by (simp add: originInBounds_def clampViewport_def Let_def max_def min_def)

lemma clamping_paths_originInBounds:
  "originInBounds e (doPan e x y s)"
  "originInBounds e (zoomIn e s)"
  "originInBounds e (zoomOut e s)"
  "originInBounds e (onMinimapClick e mw mh x y s)"
  by (simp_all add: doPan_def zoomIn_def zoomOut_def onMinimapClick_def
      scheduleSyncViewport_def originInBounds_def clampViewport_def Let_def max_def min_def)

text \<open>
  C2. The origin is meant to stay within \<open>[0, canvasExtent - visibleExtent / zoom]\<close>
  after every viewport operation. The pinch branch of \<open>onTouchMove\<close> changes the zoom
  and does not clamp, unlike the wheel and the zoom buttons: on a 1000 by 700 viewport,
  a click on the right edge of the minimap leaves the origin at x = 4000, inside the
  bound; pinching two fingers from 400 to 200 pixels apart then halves the zoom, the
  bound drops to 3000 and the origin stays at 4000.
\<close>

theorem pinch_leaves_origin_out_of_bounds:
  "originInBounds sampleEnv atRightEdge
   \<and> viewport_x atRightEdge = 4000
   \<and> zoom atRightEdge = 1
   \<and> viewport_x afterPinch = 4000
   \<and> zoom afterPinch = 1 / 2
   \<and> canvasSize afterPinch - rect_width sampleEnv / zoom afterPinch = 3000
   \<and> \<not> originInBounds sampleEnv afterPinch"
  by (simp add: originInBounds_def getPinchDistance_horizontal truthyNum_def
      onMinimapClick_def scheduleSyncViewport_def clampViewport_def constructor_def Let_def)

section \<open>Properties of the item list\<close>

lemma findIndex_None_iff: "findIndex P xs = None \<longleftrightarrow> (\<forall>x\<in>set xs. \<not> P x)"
  by (induction xs) auto

lemma findIndex_Some:
  "findIndex P xs = Some k \<Longrightarrow> k < length xs \<and> P (xs ! k) \<and> (\<forall>j<k. \<not> P (xs ! j))"
proof (induction xs arbitrary: k)
  case Nil
  then show ?case by simp
next
  case (Cons x xs)
  show ?case
  proof (cases "P x")
    case True
    with Cons.prems show ?thesis by simp
  next
    case False
    with Cons.prems obtain k' where k': "findIndex P xs = Some k'" "k = Suc k'"
      by auto
    from Cons.IH [OF k'(1)] False k'(2) show ?thesis
      by (auto simp: less_Suc_eq_0_disj)
  qed
qed

text \<open>
  C8. Saving from the text editor when the trimmed text is empty is a cancel: the call
  does exactly what \<open>closeTextEditor\<close> does. The item list, the requests sent and
  the selection are unchanged (nothing is created, edited or deleted), and the editor
  is closed.
\<close>

theorem saveTextItem_empty_is_cancel:
  assumes "trim (textInput s) = []"
  shows "saveTextItem newId s = closeTextEditor s
       \<and> items (saveTextItem newId s) = items s
       \<and> apiCalls (saveTextItem newId s) = apiCalls s
       \<and> selectedItem (saveTextItem newId s) = selectedItem s
       \<and> \<not> textEditorShown (saveTextItem newId s)
       \<and> editingItemId (saveTextItem newId s) = None"
  using assms by (simp add: saveTextItem_def closeTextEditor_def)

text \<open>
  C10. If an item with the id is in the list, \<open>deleteItem\<close> removes the first such
  item, sends the delete request and clears the selection whatever was selected; if no
  item has the id, the state (item list and selection included) is unchanged.
\<close>

theorem deleteItem_clears_selection:
  "(i \<in> it_id ` set (items s) \<longrightarrow>
      selectedItem (deleteItem i s) = None
      \<and> (\<exists>k < length (items s). it_id (items s ! k) = i
            \<and> (\<forall>j<k. it_id (items s ! j) \<noteq> i)
            \<and> items (deleteItem i s) = take k (items s) @ drop (Suc k) (items s))
      \<and> apiCalls (deleteItem i s) = apiCalls s @ [DeleteItem i])
   \<and> (i \<notin> it_id ` set (items s) \<longrightarrow> deleteItem i s = s)"
proof (intro conjI impI)
  assume "i \<notin> it_id ` set (items s)"
  then have "findIndex (\<lambda>j. it_id j = i) (items s) = None"
    by (auto simp: findIndex_None_iff)
  then show "deleteItem i s = s"
    by (simp add: deleteItem_def)
next
  assume "i \<in> it_id ` set (items s)"
  then have "findIndex (\<lambda>j. it_id j = i) (items s) \<noteq> None"
    by (auto simp: findIndex_None_iff)
  then obtain k where k: "findIndex (\<lambda>j. it_id j = i) (items s) = Some k"
    by auto
  note kp = findIndex_Some [OF k]
  show "selectedItem (deleteItem i s) = None"
    using k by (simp add: deleteItem_def)
  show "apiCalls (deleteItem i s) = apiCalls s @ [DeleteItem i]"
    using k by (simp add: deleteItem_def deleteItemAPI_def)
  have "items (deleteItem i s) = take k (items s) @ drop (Suc k) (items s)"
    using k by (simp add: deleteItem_def deleteItemAPI_def)
  with kp show "\<exists>k < length (items s). it_id (items s ! k) = i
            \<and> (\<forall>j<k. it_id (items s ! j) \<noteq> i)
            \<and> items (deleteItem i s) = take k (items s) @ drop (Suc k) (items s)"
    by blast
qed

theorem saveTextItem_empty_is_cancel_witness:
  "trim (textInput editorOnItemA) = []
   \<and> items (saveTextItem ''n'' editorOnItemA)
     = items editorOnItemA
   \<and> \<not> textEditorShown (saveTextItem ''n'' editorOnItemA)"
proof -
  have h: "trim (textInput editorOnItemA) = []"
    by (simp add: trim_def isWhiteSpace_def)
  show ?thesis
    using h saveTextItem_empty_is_cancel [OF h, of "''n''"] by blast
qed

theorem deleteItem_clears_selection_witness:
  "''b'' \<in> it_id ` set (items twoItemsFirstSelected)
   \<and> selectedItem (deleteItem ''b'' twoItemsFirstSelected) = None
   \<and> ''c'' \<notin> it_id ` set (items twoItemsFirstSelected)
   \<and> selectedItem (deleteItem ''c'' twoItemsFirstSelected) = Some ''a''"
  using deleteItem_clears_selection
    [where i = "''b''" and s = "twoItemsFirstSelected"]
    deleteItem_clears_selection
    [where i = "''c''" and s = "twoItemsFirstSelected"]
  by simp

subsection \<open>Rounding to doubles\<close>

declare bits.simps [simp del]

lemma bits_pos: "0 < n \<Longrightarrow> bits n = Suc (bits (n div 2))"
  by (simp add: bits.simps)

lemma bits_bounds: "0 < n \<Longrightarrow> 2 ^ (bits n - 1) \<le> n \<and> n < 2 ^ bits n"
proof (induction n rule: less_induct)
  case (less n)
  show ?case
  proof (cases "n div 2 = 0")
    case True
    with less.prems have "n = 1" by presburger
    then show ?thesis by (simp add: bits.simps)
  next
    case False
    then have m: "0 < n div 2" "n div 2 < n"
      using less.prems by simp_all
    from less.IH [OF m(2) m(1)]
    have lo: "2 ^ (bits (n div 2) - 1) \<le> n div 2" and hi: "n div 2 < 2 ^ bits (n div 2)"
      by simp_all
    have bp: "0 < bits (n div 2)"
      using m(1) by (simp add: bits_pos)
    have bn: "bits n = Suc (bits (n div 2))"
      using less.prems by (rule bits_pos)
    have "(2::nat) ^ bits (n div 2) = 2 * 2 ^ (bits (n div 2) - 1)"
      using bp by (cases "bits (n div 2)") simp_all
    then have "(2::nat) ^ bits (n div 2) \<le> 2 * (n div 2)"
      using lo by simp
    then have l: "(2::nat) ^ (bits n - 1) \<le> n"
      unfolding bn by simp
    have "n < 2 * (n div 2 + 1)"
      by presburger
    also have "\<dots> \<le> 2 * 2 ^ bits (n div 2)"
      using hi by simp
    finally have h: "n < 2 ^ bits n"
      unfolding bn by simp
    from l h show ?thesis by simp
  qed
qed

lemma expo_bounds:
  assumes "0 < x"
  shows "2 powi expo x \<le> x \<and> x < 2 powi (expo x + 1)"
proof (cases "1 \<le> x")
  case True
  define n where "n = nat \<lfloor>x\<rfloor>"
  have n1: "0 < n"
    using True by (simp add: n_def)
  have nx: "real n \<le> x" "x < real n + 1"
    using True by (simp_all add: n_def)
  have e: "expo x = int (bits n) - 1"
    using True by (simp add: expo_def n_def)
  have bp: "0 < bits n"
    using n1 by (simp add: bits_pos)
  from bits_bounds [OF n1] have lo: "2 ^ (bits n - 1) \<le> n" and hi: "n < 2 ^ bits n"
    by simp_all
  have e1: "(2::real) powi expo x = 2 ^ (bits n - 1)"
    unfolding e using bp by (simp add: power_int_def nat_diff_distrib')
  have e2: "(2::real) powi (expo x + 1) = 2 ^ bits n"
    unfolding e by simp
  have "(2::real) ^ (bits n - 1) \<le> real n"
    using lo by (metis of_nat_le_iff of_nat_numeral of_nat_power)
  then have a: "2 powi expo x \<le> x"
    using nx(1) e1 by linarith
  have "Suc n \<le> 2 ^ bits n"
    using hi by simp
  then have "real (Suc n) \<le> 2 ^ bits n"
    by (metis of_nat_le_iff of_nat_numeral of_nat_power)
  moreover have "real (Suc n) = real n + 1"
    by simp
  ultimately have b: "x < 2 powi (expo x + 1)"
    using nx(2) e2 by linarith
  from a b show ?thesis by simp
next
  case False
  then have x1: "x < 1" by simp
  define y where "y = 1 / x"
  have y1: "1 < y"
    using assms x1 by (simp add: y_def)
  define c where "c = nat \<lceil>y\<rceil>"
  have c2: "2 \<le> c"
    using y1 by (simp add: c_def) linarith
  have cy: "y \<le> real c" "real c - 1 < y"
    using y1 by (simp_all add: c_def) linarith+
  define k where "k = bits (c - 1)"
  have e: "expo x = - int k"
    using False by (simp add: expo_def k_def c_def y_def)
  have c1: "0 < c - 1"
    using c2 by simp
  from bits_bounds [OF c1] have lo: "2 ^ (k - 1) \<le> c - 1" and hi: "c - 1 < 2 ^ k"
    by (simp_all add: k_def)
  have kp: "0 < k"
    using c1 by (simp add: k_def bits_pos)
  have "c \<le> 2 ^ k"
    using hi by simp
  then have "real c \<le> 2 ^ k"
    by (metis of_nat_le_iff of_nat_numeral of_nat_power)
  then have yk: "y \<le> 2 ^ k"
    using cy(1) by linarith
  have "(2::real) ^ (k - 1) \<le> real (c - 1)"
    using lo by (metis of_nat_le_iff of_nat_numeral of_nat_power)
  moreover have "real (c - 1) = real c - 1"
    using c2 by (simp add: of_nat_diff)
  ultimately have ky: "2 ^ (k - 1) < y"
    using cy(2) by linarith
  have a: "2 powi expo x \<le> x"
  proof -
    have "1 / 2 ^ k \<le> 1 / y"
      using yk y1 by (simp add: frac_le)
    then show ?thesis
      using assms by (simp add: e y_def power_int_minus_divide)
  qed
  have b: "x < 2 powi (expo x + 1)"
  proof -
    have "1 / y < 1 / 2 ^ (k - 1)"
      using ky by (simp add: frac_less2)
    moreover have "(2::real) powi (expo x + 1) = 1 / 2 ^ (k - 1)"
    proof -
      have "expo x + 1 = - int (k - 1)"
        using kp e by simp
      then show ?thesis
        by (simp add: power_int_minus_divide)
    qed
    ultimately show ?thesis
      using assms by (simp add: y_def)
  qed
  from a b show ?thesis by simp
qed

lemma roundEven_error: "\<bar>of_int (roundEven y) - y\<bar> \<le> 1 / 2"
proof -
  have "of_int \<lfloor>y\<rfloor> \<le> y" "y < of_int \<lfloor>y\<rfloor> + 1"
    by linarith+
  then show ?thesis
    by (auto simp: roundEven_def Let_def)
qed


lemma pow2_less_imp_less: "(2::real) powi m < 2 powi n \<Longrightarrow> m < n"
proof (rule ccontr)
  assume lt: "(2::real) powi m < 2 powi n" and "\<not> m < n"
  then have "n \<le> m" by simp
  then have "(2::real) powi n \<le> 2 powi m"
    by (rule power_int_increasing) simp
  with lt show False by simp
qed

lemma expo_unique:
  assumes "0 < x" "2 powi k \<le> x" "x < 2 powi (k + 1)"
  shows "expo x = k"
proof -
  from expo_bounds [OF assms(1)]
  have lo: "2 powi expo x \<le> x" and hi: "x < 2 powi (expo x + 1)"
    by simp_all
  have "(2::real) powi k < 2 powi (expo x + 1)"
    using assms(2) hi by linarith
  then have a: "k < expo x + 1"
    by (rule pow2_less_imp_less)
  have "(2::real) powi expo x < 2 powi (k + 1)"
    using lo assms(3) by linarith
  then have b: "expo x < k + 1"
    by (rule pow2_less_imp_less)
  from a b show ?thesis by simp
qed

lemma fl_quantum:
  assumes "2 powi (- 1022) \<le> x"
  shows "fl x = of_int (roundEven (x / 2 powi (expo x - 52))) * 2 powi (expo x - 52)"
    and "- 1022 \<le> expo x"
proof -
  have x0: "0 < x"
  proof -
    have "0 < (2::real) powi (- 1022)"
      by simp
    with assms show ?thesis
      by linarith
  qed
  from expo_bounds [OF x0] have hi: "x < 2 powi (expo x + 1)"
    by simp
  have "(2::real) powi (- 1022) < 2 powi (expo x + 1)"
    using assms hi by linarith
  then have "- 1022 < expo x + 1"
    by (rule pow2_less_imp_less)
  then show e: "- 1022 \<le> expo x"
    by simp
  then have "max (expo x) (- 1022) = expo x"
    by simp
  then show "fl x = of_int (roundEven (x / 2 powi (expo x - 52))) * 2 powi (expo x - 52)"
    using x0 by (simp add: fl_def flpos_def Let_def)
qed

lemma fl_error:
  assumes "2 powi (- 1022) \<le> x"
  shows "\<bar>fl x - x\<bar> \<le> x / 2 ^ 53"
proof -
  have x0: "0 < x"
  proof -
    have "0 < (2::real) powi (- 1022)"
      by simp
    with assms show ?thesis
      by linarith
  qed
  define q :: real where "q = 2 powi (expo x - 52)"
  have q0: "0 < q"
    by (simp add: q_def)
  have f: "fl x = of_int (roundEven (x / q)) * q"
    using fl_quantum(1) [OF assms] by (simp add: q_def)
  have "fl x - x = (of_int (roundEven (x / q)) - x / q) * q"
    using q0 by (simp add: f field_simps)
  then have "\<bar>fl x - x\<bar> = \<bar>of_int (roundEven (x / q)) - x / q\<bar> * q"
    using q0 by (simp add: abs_mult)
  also have "\<dots> \<le> (1 / 2) * q"
    using roundEven_error [of "x / q"] q0 by (intro mult_right_mono) simp_all
  finally have err: "\<bar>fl x - x\<bar> \<le> q / 2"
    by simp
  have "(2::real) powi ((expo x - 52) + 52) = 2 powi (expo x - 52) * 2 powi 52"
    by (rule power_int_add) simp
  then have "(2::real) powi expo x = q * 2 ^ 52"
    by (simp add: q_def)
  then have "q * 2 ^ 52 \<le> x"
    using expo_bounds [OF x0] by simp
  then have "q / 2 \<le> x / 2 ^ 53"
    by simp
  with err show ?thesis
    by linarith
qed

lemma fl_positive:
  assumes "2 powi (- 1022) \<le> x"
  shows "0 < fl x"
proof -
  have x0: "0 < x"
  proof -
    have "0 < (2::real) powi (- 1022)"
      by simp
    with assms show ?thesis
      by linarith
  qed
  have "x / 2 ^ 53 < x"
    using x0 by simp
  with fl_error [OF assms] show ?thesis
    by linarith
qed

lemma roundEven_le: "y < of_int n + 1 \<Longrightarrow> roundEven y \<le> n + 1"
proof -
  assume "y < of_int n + 1"
  then have "\<lfloor>y\<rfloor> \<le> n"
    by linarith
  moreover have "roundEven y \<le> \<lfloor>y\<rfloor> + 1"
    by (simp add: roundEven_def Let_def)
  ultimately show ?thesis
    by linarith
qed

lemma fl_le_400_ulp:
  assumes lo: "2 powi (- 1022) \<le> x" and hi: "x \<le> 400 + 400 / 2 ^ 53"
  shows "fl x \<le> 400 + 1 / 2 ^ 44"
proof (cases "x < 256")
  case True
  have x0: "0 < x"
  proof -
    have "0 < (2::real) powi (- 1022)"
      by simp
    with lo show ?thesis
      by linarith
  qed
  have "x / 2 ^ 53 \<le> 1"
    using True x0 by simp
  with fl_error [OF lo] have "fl x \<le> x + 1"
    by linarith
  with True have "fl x \<le> 400"
    by linarith
  then show ?thesis
    by simp
next
  case False
  then have x0: "0 < x"
    by simp
  have e: "expo x = 8"
  proof (rule expo_unique [OF x0])
    show "2 powi 8 \<le> x"
      using False by simp
    show "x < 2 powi (8 + 1)"
      using hi by simp
  qed
  have f: "fl x = of_int (roundEven (x * 2 ^ 44)) / 2 ^ 44"
    using fl_quantum(1) [OF lo] by (simp add: e power_int_minus_divide)
  have "x * 2 ^ 44 < of_int (400 * 2 ^ 44) + 1"
    using hi by simp
  then have "roundEven (x * 2 ^ 44) \<le> 400 * 2 ^ 44 + 1"
    by (rule roundEven_le)
  then have "(of_int (roundEven (x * 2 ^ 44)) :: real) \<le> of_int (400 * 2 ^ 44 + 1)"
    by (rule of_int_le_iff [THEN iffD2])
  then have "(of_int (roundEven (x * 2 ^ 44)) :: real) / 2 ^ 44 \<le> (400 * 2 ^ 44 + 1) / 2 ^ 44"
    by (simp add: divide_right_mono)
  then show ?thesis
    by (simp add: f add_divide_distrib)
qed

lemma ratio_error:
  fixes a b W H u :: real
  assumes a: "0 < a" and b: "0 < b"
    and W: "\<bar>W - a\<bar> \<le> a * u" and H: "\<bar>H - b\<bar> \<le> b * u"
    and u: "0 \<le> u" "u \<le> 1 / 2"
  shows "\<bar>W / H - a / b\<bar> \<le> 4 * u * (a / b)"
proof -
  have "b * u \<le> b * (1 / 2)"
    using b u by (intro mult_left_mono) simp_all
  with H have Hlow: "b / 2 \<le> H"
    by (simp add: abs_le_iff)
  then have H0: "0 < H"
    using b by linarith
  have "W * b - H * a = (W - a) * b - (H - b) * a"
    by (simp add: algebra_simps)
  then have "\<bar>W * b - H * a\<bar> \<le> \<bar>(W - a) * b\<bar> + \<bar>(H - b) * a\<bar>"
    by (simp add: abs_triangle_ineq4)
  also have "\<bar>(W - a) * b\<bar> = \<bar>W - a\<bar> * b"
    using b by (simp add: abs_mult)
  also have "\<bar>(H - b) * a\<bar> = \<bar>H - b\<bar> * a"
    using a by (simp add: abs_mult)
  also have "\<bar>W - a\<bar> * b + \<bar>H - b\<bar> * a \<le> (a * u) * b + (b * u) * a"
    using W H a b by (intro add_mono mult_right_mono) simp_all
  finally have num: "\<bar>W * b - H * a\<bar> \<le> 2 * u * (a * b)"
    by (simp add: algebra_simps)
  have "W / H - a / b = (W * b - H * a) / (H * b)"
    using H0 b by (simp add: field_simps)
  then have "\<bar>W / H - a / b\<bar> = \<bar>W * b - H * a\<bar> / (H * b)"
    using H0 b by (simp add: abs_mult)
  also have "\<dots> \<le> (2 * u * (a * b)) / (H * b)"
    using num H0 b by (intro divide_right_mono) simp_all
  also have "\<dots> \<le> (2 * u * (a * b)) / ((b / 2) * b)"
    using Hlow a b u by (intro divide_left_mono mult_right_mono) simp_all
  also have "\<dots> = 4 * u * (a / b)"
    using b by (simp add: field_simps)
  finally show ?thesis .
qed


subsection \<open>Image items\<close>

lemma quotient_in_range:
  assumes "0 < w" "w < (2::nat) ^ 32"
  shows "2 powi (- 1022) \<le> 400 / real w"
    and "200 / 2 ^ 32 \<le> fl (400 / real w)"
    and "fl (400 / real w) \<le> (400 + 400 / 2 ^ 53) / real w"
proof -
  have w0: "0 < real w"
    using assms(1) by simp
  have "real w \<le> real ((2::nat) ^ 32)"
    using assms(2) by (intro of_nat_mono) simp
  then have w32: "real w \<le> 2 ^ 32"
    by simp
  have "(2::real) powi (- 1022) \<le> 2 powi (- 32)"
    by (rule power_int_increasing) simp_all
  also have "(2::real) powi (- 32) = 1 / 2 ^ 32"
    by (simp add: power_int_minus_divide)
  also have "\<dots> \<le> 400 / real w"
    using w0 w32 by (intro frac_le) simp_all
  finally show lo: "2 powi (- 1022) \<le> 400 / real w" .
  have err: "\<bar>fl (400 / real w) - 400 / real w\<bar> \<le> 400 / real w / 2 ^ 53"
    by (rule fl_error [OF lo])
  have "400 / 2 ^ 32 \<le> 400 / real w"
    using w0 w32 by (intro frac_le) simp_all
  moreover have "400 / real w / 2 ^ 53 \<le> 400 / real w / 2"
    using w0 by (intro divide_left_mono) simp_all
  ultimately show "200 / 2 ^ 32 \<le> fl (400 / real w)"
    using err by (simp add: abs_le_iff)
  have "(400 + 400 / 2 ^ 53) / real w = 400 / real w + 400 / real w / 2 ^ 53"
    by (simp add: add_divide_distrib)
  then show "fl (400 / real w) \<le> (400 + 400 / 2 ^ 53) / real w"
    using err by (simp only: abs_le_iff) linarith
qed

lemma scaled_in_range:
  assumes "0 < w" "w < (2::nat) ^ 32" "0 < h" "h < (2::nat) ^ 32"
  shows "2 powi (- 1022) \<le> real w * min (fl (400 / real w)) (fl (400 / real h))"
    and "real w * min (fl (400 / real w)) (fl (400 / real h)) \<le> 400 + 400 / 2 ^ 53"
proof -
  define r where "r = min (fl (400 / real w)) (fl (400 / real h))"
  have w1: "1 \<le> real w"
    using assms(1) by simp
  have rlo: "200 / 2 ^ 32 \<le> r"
    using quotient_in_range(2) [OF assms(1,2)] quotient_in_range(2) [OF assms(3,4)]
    by (simp add: r_def)
  then have r0: "0 < r"
    by simp
  have "(2::real) powi (- 1022) \<le> 2 powi (- 32)"
    by (rule power_int_increasing) simp_all
  also have "(2::real) powi (- 32) = 1 / 2 ^ 32"
    by (simp add: power_int_minus_divide)
  also have "\<dots> \<le> r"
    using rlo by simp
  also have "r \<le> real w * r"
    using w1 r0 by simp
  finally show "2 powi (- 1022) \<le> real w * min (fl (400 / real w)) (fl (400 / real h))"
    by (simp add: r_def)
  have "r \<le> (400 + 400 / 2 ^ 53) / real w"
    using quotient_in_range(3) [OF assms(1,2)] by (simp add: r_def)
  then have "real w * r \<le> real w * ((400 + 400 / 2 ^ 53) / real w)"
    using w1 by (intro mult_left_mono) simp_all
  also have "\<dots> = 400 + 400 / 2 ^ 53"
    using w1 by simp
  finally show "real w * min (fl (400 / real w)) (fl (400 / real h)) \<le> 400 + 400 / 2 ^ 53"
    by (simp add: r_def)
qed

lemma scaled_dimensions:
  assumes "0 < w" "w < (2::nat) ^ 32" "0 < h" "h < (2::nat) ^ 32"
  defines "r \<equiv> min (fl (400 / real w)) (fl (400 / real h))"
  shows "fl (real w * r) \<le> 400 + 1 / 2 ^ 44"
    and "fl (real h * r) \<le> 400 + 1 / 2 ^ 44"
    and "0 < fl (real w * r)"
    and "0 < fl (real h * r)"
    and "\<bar>fl (real w * r) / fl (real h * r) - real w / real h\<bar> \<le> real w / real h / 2 ^ 51"
proof -
  have r': "r = min (fl (400 / real h)) (fl (400 / real w))"
    by (simp add: r_def min.commute)
  have wa: "2 powi (- 1022) \<le> real w * r" "real w * r \<le> 400 + 400 / 2 ^ 53"
    using scaled_in_range [OF assms(1-4)] by (simp_all add: r_def)
  have ha: "2 powi (- 1022) \<le> real h * r" "real h * r \<le> 400 + 400 / 2 ^ 53"
    using scaled_in_range [OF assms(3,4,1,2)] by (simp_all add: r')
  show "fl (real w * r) \<le> 400 + 1 / 2 ^ 44"
    by (rule fl_le_400_ulp [OF wa])
  show "fl (real h * r) \<le> 400 + 1 / 2 ^ 44"
    by (rule fl_le_400_ulp [OF ha])
  show "0 < fl (real w * r)"
    by (rule fl_positive [OF wa(1)])
  show "0 < fl (real h * r)"
    by (rule fl_positive [OF ha(1)])
  have a0: "0 < real w * r"
  proof -
    have "0 < (2::real) powi (- 1022)"
      by simp
    with wa(1) show ?thesis
      by linarith
  qed
  have b0: "0 < real h * r"
  proof -
    have "0 < (2::real) powi (- 1022)"
      by simp
    with ha(1) show ?thesis
      by linarith
  qed
  have r0: "0 < r"
    using a0 assms(1) by (simp add: zero_less_mult_iff)
  have ew: "\<bar>fl (real w * r) - real w * r\<bar> \<le> real w * r * (1 / 2 ^ 53)"
    using fl_error [OF wa(1)] by simp
  have eh: "\<bar>fl (real h * r) - real h * r\<bar> \<le> real h * r * (1 / 2 ^ 53)"
    using fl_error [OF ha(1)] by simp
  have "\<bar>fl (real w * r) / fl (real h * r) - real w * r / (real h * r)\<bar>
          \<le> 4 * (1 / 2 ^ 53) * (real w * r / (real h * r))"
    by (rule ratio_error [OF a0 b0 ew eh]) simp_all
  moreover have "real w * r / (real h * r) = real w / real h"
    using r0 by simp
  ultimately show "\<bar>fl (real w * r) / fl (real h * r) - real w / real h\<bar>
      \<le> real w / real h / 2 ^ 51"
    by simp
qed


text \<open>
  C7, as stated. The stored size is not always within 400, nor is its ratio always
  that of the source: the products are rounded. For a 530 by 530 image the factor is
  the double nearest to 400 / 530 and 530 times it rounds to \<open>400 + 1 / 2 ^ 44\<close>,
  the double just above 400 (400.00000000000006). For a 401 by 34 image the stored
  width is 400 and the stored height is not \<open>400 * 34 / 401\<close>.
\<close>

theorem addImageItem_exceeds_400_counterexample:
  "it_width (last (items (addImageItem ''n'' ''data:'' None None 530 530 (constructor sampleEnv))))
     = Some (400 + 1 / 2 ^ 44)
   \<and> (400::real) < 400 + 1 / 2 ^ 44
   \<and> it_width (last (items (addImageItem ''n'' ''data:'' None None 401 34 (constructor sampleEnv))))
     = Some 400
   \<and> it_height (last (items (addImageItem ''n'' ''data:'' None None 401 34 (constructor sampleEnv))))
     = Some (4773141749706885 / 140737488355328)
   \<and> (400::real) / (4773141749706885 / 140737488355328) \<noteq> 401 / 34"
  by (simp add: addImageItem_def createItemAPI_def fl_def flpos_def expo_def roundEven_def
      bits.simps Let_def)

text \<open>
  C7, amended. An image of positive size w by h is appended as one new item. If w or h
  exceeds 400, both stored dimensions are the source dimensions times the one factor
  min (400 / w) (400 / h), each quotient and each product rounded to a double: each
  stored dimension is at most \<open>400 + 1 / 2 ^ 44\<close>, the double next above 400, and
  their quotient differs from w / h by at most the fraction \<open>1 / 2 ^ 51\<close> of it.
  Otherwise the dimensions are stored as they are. Nothing caps the size again later:
  a resize of the new item stores max 50 (start + delta), whatever the 400 limit.
\<close>

theorem addImageItem_normalizes:
  assumes w: "0 < w" "w < 2 ^ 32" and h: "0 < h" "h < 2 ^ 32"
    and ptr: "\<bar>cx\<bar> \<le> 2 ^ 31" "\<bar>px\<bar> \<le> 2 ^ 31" "1 / 4 \<le> zoom s"
  shows "items (addImageItem newId dataUrl x y w h s)
           = items s @ [last (items (addImageItem newId dataUrl x y w h s))]
       \<and> (real w > 400 \<or> real h > 400 \<longrightarrow>
            it_width (last (items (addImageItem newId dataUrl x y w h s)))
              = Some (fl (real w * min (fl (400 / real w)) (fl (400 / real h))))
          \<and> it_height (last (items (addImageItem newId dataUrl x y w h s)))
              = Some (fl (real h * min (fl (400 / real w)) (fl (400 / real h))))
          \<and> fl (real w * min (fl (400 / real w)) (fl (400 / real h))) \<le> 400 + 1 / 2 ^ 44
          \<and> fl (real h * min (fl (400 / real w)) (fl (400 / real h))) \<le> 400 + 1 / 2 ^ 44
          \<and> 0 < fl (real w * min (fl (400 / real w)) (fl (400 / real h)))
          \<and> 0 < fl (real h * min (fl (400 / real w)) (fl (400 / real h)))
          \<and> \<bar>fl (real w * min (fl (400 / real w)) (fl (400 / real h)))
               / fl (real h * min (fl (400 / real w)) (fl (400 / real h)))
               - real w / real h\<bar> \<le> real w / real h / 2 ^ 51)
       \<and> (\<not> (real w > 400 \<or> real h > 400) \<longrightarrow>
            it_width (last (items (addImageItem newId dataUrl x y w h s))) = Some (real w)
          \<and> it_height (last (items (addImageItem newId dataUrl x y w h s))) = Some (real h))
       \<and> it_width (last (items
            (doResize cx cy
               (startResize px py (last (items (addImageItem newId dataUrl x y w h s)))
                  (addImageItem newId dataUrl x y w h s)))))
           = Some (max 50
                (fl (the (it_width (last (items (addImageItem newId dataUrl x y w h s))))
                     + fl (fl (cx - px) / zoom s))))"
proof -
  have w0: "real w \<noteq> 0" and h0: "real h \<noteq> 0"
    using w(1) h(1) by simp_all
  note sd = scaled_dimensions [OF w h]
  have app: "items (addImageItem newId dataUrl x y w h s)
           = items s @ [last (items (addImageItem newId dataUrl x y w h s))]"
    by (simp add: addImageItem_def createItemAPI_def Let_def)
  have big: "real w > 400 \<or> real h > 400 \<Longrightarrow>
            it_width (last (items (addImageItem newId dataUrl x y w h s)))
              = Some (fl (real w * min (fl (400 / real w)) (fl (400 / real h))))
          \<and> it_height (last (items (addImageItem newId dataUrl x y w h s)))
              = Some (fl (real h * min (fl (400 / real w)) (fl (400 / real h))))"
    using w0 h0 by (simp add: addImageItem_def createItemAPI_def Let_def)
  have small: "\<not> (real w > 400 \<or> real h > 400) \<Longrightarrow>
            it_width (last (items (addImageItem newId dataUrl x y w h s))) = Some (real w)
          \<and> it_height (last (items (addImageItem newId dataUrl x y w h s))) = Some (real h)"
    by (simp add: addImageItem_def createItemAPI_def Let_def)
  have resize: "it_width (last (items
            (doResize cx cy
               (startResize px py (last (items (addImageItem newId dataUrl x y w h s)))
                  (addImageItem newId dataUrl x y w h s)))))
           = Some (max 50
                (fl (the (it_width (last (items (addImageItem newId dataUrl x y w h s))))
                     + fl (fl (cx - px) / zoom s))))"
    by (simp add: addImageItem_def createItemAPI_def doResize_def startResize_def Let_def)
  show ?thesis
    using app big small resize sd by blast
qed

theorem addImageItem_normalizes_witness:
  "(0::nat) < 800 \<and> (800::nat) < 2 ^ 32 \<and> (0::nat) < 600 \<and> (600::nat) < 2 ^ 32
   \<and> 1 / 4 \<le> zoom (constructor sampleEnv)
   \<and> it_width (last (items (addImageItem ''n'' ''data:'' None None 800 600 (constructor sampleEnv))))
       = Some 400
   \<and> it_height (last (items (addImageItem ''n'' ''data:'' None None 800 600 (constructor sampleEnv))))
       = Some 300"
proof -
  have z: "1 / 4 \<le> zoom (constructor sampleEnv)"
    by (simp add: constructor_def)
  from addImageItem_normalizes
    [where w = 800 and h = 600 and newId = "''n''" and dataUrl = "''data:''" and x = None
       and y = None and s = "constructor sampleEnv" and cx = 0 and cy = 0 and px = 0, OF _ _ _ _ _ _ z]
  have "it_width (last (items (addImageItem ''n'' ''data:'' None None 800 600 (constructor sampleEnv))))
       = Some (fl (real 800 * min (fl (400 / real 800)) (fl (400 / real 600))))
     \<and> it_height (last (items (addImageItem ''n'' ''data:'' None None 800 600 (constructor sampleEnv))))
       = Some (fl (real 600 * min (fl (400 / real 800)) (fl (400 / real 600))))"
    by simp
  then show ?thesis
    by (simp add: fl_def flpos_def expo_def roundEven_def bits.simps Let_def constructor_def)
qed

section \<open>Properties of the navigation loops\<close>

lemma normalizeNavKey_d: "normalizeNavKey ''d'' = ''right''"
  by (simp add: normalizeNavKey_def toLowerCase_def)

lemma isNavKeyEvent_key_d: "isNavKeyEvent sampleKeyD"
  by (simp add: isNavKeyEvent_def toLowerCase_def)

lemma startNavigation_while_active: "isNavigating s \<Longrightarrow> startNavigation e s = s"
  by (simp add: startNavigation_def)

lemma startJoystickNavigation_while_active:
  "joystickNavigating s \<Longrightarrow> startJoystickNavigation e s = s"
  by (simp add: startJoystickNavigation_def)

lemma navigationLoop_ends_without_keys:
  "keysPressed s = {} \<Longrightarrow> navigationLoop e s = s\<lparr>isNavigating := False\<rparr>"
  by (simp add: navigationLoop_def)

lemma joystickNavigationLoop_ends_when_stopped:
  "\<not> joystickNavigating s \<Longrightarrow> joystickNavigationLoop e s = s"
  by (simp add: joystickNavigationLoop_def)

text \<open>
  C9. Each navigation loop is meant to run as one instance. The guard is a flag, and
  stopping clears the flag without cancelling the frame already requested. Releasing
  the key and pressing it again before the next frame (D down, D up, D down) therefore
  starts a second loop while the first callback is still queued: two
  \<open>navigationLoop\<close> callbacks are pending, both run in every following frame and
  both request the next one, so the viewport moves 16 units per frame instead of 8.
  The joystick loop does the same on press, release, press.
\<close>

theorem navigation_loops_run_twice:
  "rafQueue afterKeyDown = [NavLoop]
   \<and> onKeyUp sampleKeyD afterKeyDown
       = Threw (TypeError ''this.saveViewportPosition is not a function'') afterKeyUp
   \<and> \<not> isNavigating afterKeyUp
   \<and> rafQueue afterKeyUp = [NavLoop]
   \<and> rafQueue afterKeyDownAgain = [NavLoop, NavLoop]
   \<and> rafQueue (animationFrame sampleEnv afterKeyDownAgain) = [NavLoop, NavLoop]
   \<and> viewport_x (animationFrame sampleEnv afterKeyDownAgain) = viewport_x afterKeyDownAgain + 16
   \<and> rafQueue (animationFrame sampleEnv (animationFrame sampleEnv afterKeyDownAgain)) = [NavLoop, NavLoop]
   \<and> rafQueue afterStickPressAgain = [JoyLoop, JoyLoop]
   \<and> rafQueue (animationFrame sampleEnv afterStickPressAgain) = [JoyLoop, JoyLoop]"
  by (simp add: onKeyDown_def onKeyUp_def isNavKeyEvent_key_d normalizeNavKey_d startNavigation_def
      stopNavigation_def navigationLoop_def requestAnimationFrame_def animationFrame_def
      onJoystickMouseStart_def onJoystickMouseEnd_def resetJoystick_def
      startJoystickNavigation_def stopJoystickNavigation_def joystickNavigationLoop_def
      constructor_def Let_def)

section \<open>Properties of the backend\<close>

text \<open>
  C3, as stated. A token whose stored expiry has passed is not rejected at request time:
  \<open>requireAuth\<close> only asks whether the token is in the session map. After a login at
  time 1000 the token expires at 86401000; the hourly sweep at 86400000 keeps it; the
  request at 86402000, after the expiry, is let through.
\<close>

theorem expired_token_accepted_counterexample:
  "sessions (sweepSessions 86400000 afterLogin) ''tok''
     = Some 86401000
   \<and> (86401000 :: int) < 86402000
   \<and> \<not> isl (requireAuth sampleRequest 86402000
               (sweepSessions 86400000 afterLogin))"
  by (simp add: requireAuth_def requestToken_def truthyStr_def sweepSessions_def login_def)

text \<open>
  C3, amended. A request to a protected endpoint whose token is missing, empty or not
  in the session map is answered 401 with \<open>needsAuth: true\<close>. A token that is in the
  map is accepted whatever its stored expiry, and its expiry is set to 24 hours from
  now. A token whose expiry has passed is rejected once a sweep has run after the
  expiry and removed it.
\<close>

theorem requireAuth_checks_presence_only:
  "((requestToken req = None \<or> requestToken req = Some []
      \<or> (\<exists>t. requestToken req = Some t \<and> sessions srv t = None))
     \<longrightarrow> requireAuth req now srv = Inl (Response 401 (JsonError ''Unauthorized'' True)))
   \<and> ((requestToken req = Some t \<and> t \<noteq> [] \<and> sessions srv t = Some expiry)
     \<longrightarrow> requireAuth req now srv
           = Inr (srv\<lparr>sessions := (sessions srv)(t \<mapsto> now + 86400000)\<rparr>))
   \<and> ((requestToken req = Some t \<and> sessions srv t = Some expiry \<and> expiry < swept)
     \<longrightarrow> requireAuth req now (sweepSessions swept srv)
           = Inl (Response 401 (JsonError ''Unauthorized'' True)))"
  by (auto simp: requireAuth_def sweepSessions_def split: option.splits)

theorem requireAuth_checks_presence_only_witness:
  "requestToken sampleRequest = Some ''tok''
   \<and> sessions afterLogin ''tok'' = Some 86401000
   \<and> requireAuth sampleRequest 86402000 afterLogin
       = Inr (afterLogin
               \<lparr>sessions := (sessions afterLogin)
                              (''tok'' \<mapsto> 86402000 + 86400000)\<rparr>)
   \<and> requireAuth sampleRequest 90000001
        (sweepSessions 90000000 afterLogin)
       = Inl (Response 401 (JsonError ''Unauthorized'' True))
   \<and> requireAuth \<lparr>header_token = None, query_token = None\<rparr> 5 sampleServer
       = Inl (Response 401 (JsonError ''Unauthorized'' True))"
proof -
  have tok: "requestToken sampleRequest = Some ''tok''"
    by (simp add: requestToken_def truthyStr_def)
  have st: "sessions afterLogin ''tok'' = Some 86401000"
    by (simp add: login_def)
  have none: "requestToken \<lparr>header_token = None, query_token = None\<rparr> = None"
    by (simp add: requestToken_def truthyStr_def)
  show ?thesis
    using tok st
      requireAuth_checks_presence_only
        [where req = "sampleRequest" and t = "''tok''" and expiry = 86401000 and now = 86402000
           and srv = "afterLogin" and swept = 90000000]
      requireAuth_checks_presence_only
        [where req = "sampleRequest" and t = "''tok''" and expiry = 86401000 and now = 90000001
           and srv = "afterLogin" and swept = 90000000]
      requireAuth_checks_presence_only
        [where req = "\<lparr>header_token = None, query_token = None\<rparr>" and now = 5
           and srv = "sampleServer"]
      none
    by simp
qed

text \<open>
  C5. An authenticated \<open>PUT /items/:id\<close> whose body supplies only \<open>x\<close> succeeds
  and rewrites the items table so that the row with that id has the new \<open>x\<close> and
  \<open>updated_at = now\<close>; \<open>y\<close>, \<open>width\<close>, \<open>height\<close>, \<open>content\<close>, \<open>style\<close>,
  \<open>z_index\<close> and every other column of it, every other row, and the boards and
  todos are as before.
\<close>

theorem putItem_only_x:
  assumes "requireAuth req now srv = Inr srv1"
  shows "putItem req i \<lparr>u_x = Val v, u_y = Undefined, u_width = Undefined,
                        u_height = Undefined, u_content = Undefined, u_style = Undefined,
                        u_z_index = Undefined\<rparr> now srv
         = (Response 200 Success,
            srv1\<lparr>itemsTable :=
                   map (\<lambda>r. if r_id r = i then r\<lparr>r_x := v, r_updated_at := now\<rparr> else r)
                     (itemsTable srv)\<rparr>)
       \<and> boardsTable srv1 = boardsTable srv \<and> todosTable srv1 = todosTable srv"
proof -
  have same: "itemsTable srv1 = itemsTable srv" "boardsTable srv1 = boardsTable srv"
    "todosTable srv1 = todosTable srv"
    using assms by (auto simp: requireAuth_def split: option.splits if_splits)
  have row: "applyItemUpdate \<lparr>u_x = Val v, u_y = Undefined, u_width = Undefined,
                        u_height = Undefined, u_content = Undefined, u_style = Undefined,
                        u_z_index = Undefined\<rparr> now r = r\<lparr>r_x := v, r_updated_at := now\<rparr>" for r
    by (simp add: applyItemUpdate_def setColumn_def setRequired_def)
  show ?thesis
    using assms same by (simp add: putItem_def updateItemRows_def row)
qed

theorem putItem_only_x_witness:
  "requireAuth sampleRequest 5000 sampleServerWithItem
     = Inr ( sampleServerWithItem\<lparr>sessions := [''tok'' \<mapsto> 86405000]\<rparr>)
   \<and> itemsTable (snd (putItem sampleRequest ''a''
         \<lparr>u_x = Val 10, u_y = Undefined, u_width = Undefined, u_height = Undefined,
          u_content = Undefined, u_style = Undefined, u_z_index = Undefined\<rparr> 5000 sampleServerWithItem))
     = [\<lparr>r_id = ''a'', r_board_id = ''default'', r_type = ''text'', r_x = 10, r_y = 200,
         r_width = None, r_height = None, r_content = Some ''Goal'',
         r_style = Some (JSON_stringify (Some [(''bold'', JBool True)])),
         r_z_index = Some 0, r_created_at = 1000, r_updated_at = 5000\<rparr>]"
proof -
  have h: "requireAuth sampleRequest 5000 sampleServerWithItem
     = Inr ( sampleServerWithItem\<lparr>sessions := [''tok'' \<mapsto> 86405000]\<rparr>)"
    by (simp add: requireAuth_def requestToken_def truthyStr_def)
  show ?thesis
    using h putItem_only_x [OF h, of "''a''" 10] by simp
qed

subsection \<open>Full sync, then fetch\<close>

lemma insertItems_Inr:
  "insertItems bs bid now its tbl = Inr tbl' \<Longrightarrow> tbl' = tbl @ map (itemRowOf bid now) its"
proof (induction its arbitrary: tbl)
  case Nil
  then show ?case by simp
next
  case (Cons item rest)
  from Cons.prems obtain mid where
    mid: "insertItemRow bs (itemRowOf bid now item) tbl = Inr mid"
    and rest: "insertItems bs bid now rest mid = Inr tbl'"
    by (auto split: sum.splits)
  from mid have "mid = tbl @ [itemRowOf bid now item]"
    by (auto simp: insertItemRow_def split: if_splits)
  with Cons.IH [OF rest] show ?case by simp
qed

lemma insertTodos_Inr:
  "insertTodos bs bid now tds tbl = Inr tbl' \<Longrightarrow> tbl' = tbl @ map (todoRowOf bid now) tds"
proof (induction tds arbitrary: tbl)
  case Nil
  then show ?case by simp
next
  case (Cons todo rest)
  from Cons.prems obtain mid where
    mid: "insertTodoRow bs (todoRowOf bid now todo) tbl = Inr mid"
    and rest: "insertTodos bs bid now rest mid = Inr tbl'"
    by (auto split: sum.splits)
  from mid have "mid = tbl @ [todoRowOf bid now todo]"
    by (auto simp: insertTodoRow_def split: if_splits)
  with Cons.IH [OF rest] show ?case by simp
qed

lemma requireAuth_tables:
  "requireAuth req now srv = Inr srv1 \<Longrightarrow>
     itemsTable srv1 = itemsTable srv \<and> todosTable srv1 = todosTable srv
     \<and> boardsTable srv1 = boardsTable srv"
  by (auto simp: requireAuth_def split: option.splits if_splits)

lemma syncTransaction_tables:
  assumes "syncTransaction b now srv = Inr srv'"
  shows "itemsTable srv' =
           filter (\<lambda>r. r_board_id r \<noteq> syncBoardId b) (itemsTable srv)
           @ map (itemRowOf (syncBoardId b) now) (case sb_items b of None \<Rightarrow> [] | Some l \<Rightarrow> l)"
    and "todosTable srv' =
           filter (\<lambda>r. t_board_id r \<noteq> syncBoardId b) (todosTable srv)
           @ map (todoRowOf (syncBoardId b) now) (case sb_todos b of None \<Rightarrow> [] | Some l \<Rightarrow> l)"
proof -
  define srv1 where "srv1 = (case sb_viewport b of
                    None \<Rightarrow> srv
                  | Some (x, y, z) \<Rightarrow>
                      srv\<lparr>boardsTable :=
                            map (\<lambda>r. if b_id r = syncBoardId b
                                     then r\<lparr>b_viewport_x := x, b_viewport_y := y, b_zoom := z,
                                            b_updated_at := now\<rparr>
                                     else r)
                              (boardsTable srv)\<rparr>)"
  have t1: "itemsTable srv1 = itemsTable srv" "todosTable srv1 = todosTable srv"
    by (auto simp: srv1_def split: option.splits)
  from assms obtain itbl ttbl where
    i: "insertItems (boardsTable srv1) (syncBoardId b) now
          (case sb_items b of None \<Rightarrow> [] | Some l \<Rightarrow> l)
          (filter (\<lambda>r. r_board_id r \<noteq> syncBoardId b) (itemsTable srv1)) = Inr itbl"
    and t: "insertTodos (boardsTable srv1) (syncBoardId b) now
          (case sb_todos b of None \<Rightarrow> [] | Some l \<Rightarrow> l)
          (filter (\<lambda>r. t_board_id r \<noteq> syncBoardId b) (todosTable srv1)) = Inr ttbl"
    and r: "srv' = srv1\<lparr>itemsTable := itbl, todosTable := ttbl\<rparr>"
    unfolding syncTransaction_def Let_def srv1_def [symmetric]
    by (auto split: sum.splits)
  show "itemsTable srv' =
           filter (\<lambda>r. r_board_id r \<noteq> syncBoardId b) (itemsTable srv)
           @ map (itemRowOf (syncBoardId b) now) (case sb_items b of None \<Rightarrow> [] | Some l \<Rightarrow> l)"
    using insertItems_Inr [OF i] r t1 by simp
  show "todosTable srv' =
           filter (\<lambda>r. t_board_id r \<noteq> syncBoardId b) (todosTable srv)
           @ map (todoRowOf (syncBoardId b) now) (case sb_todos b of None \<Rightarrow> [] | Some l \<Rightarrow> l)"
    using insertTodos_Inr [OF t] r t1 by simp
qed

lemma postSync_tables:
  assumes "postSync req b now srv = (Response 200 (Synced now), srv')"
  shows "itemsTable srv' =
           filter (\<lambda>r. r_board_id r \<noteq> syncBoardId b) (itemsTable srv)
           @ map (itemRowOf (syncBoardId b) now) (case sb_items b of None \<Rightarrow> [] | Some l \<Rightarrow> l)"
    and "todosTable srv' =
           filter (\<lambda>r. t_board_id r \<noteq> syncBoardId b) (todosTable srv)
           @ map (todoRowOf (syncBoardId b) now) (case sb_todos b of None \<Rightarrow> [] | Some l \<Rightarrow> l)"
proof -
  from assms obtain srv1 where a: "requireAuth req now srv = Inr srv1"
    and s: "syncTransaction b now srv1 = Inr srv'"
    by (auto simp: postSync_def requireAuth_def split: sum.splits option.splits if_splits)
  note ra = requireAuth_tables [OF a]
  show "itemsTable srv' =
           filter (\<lambda>r. r_board_id r \<noteq> syncBoardId b) (itemsTable srv)
           @ map (itemRowOf (syncBoardId b) now) (case sb_items b of None \<Rightarrow> [] | Some l \<Rightarrow> l)"
    using syncTransaction_tables(1) [OF s] ra by simp
  show "todosTable srv' =
           filter (\<lambda>r. t_board_id r \<noteq> syncBoardId b) (todosTable srv)
           @ map (todoRowOf (syncBoardId b) now) (case sb_todos b of None \<Rightarrow> [] | Some l \<Rightarrow> l)"
    using syncTransaction_tables(2) [OF s] ra by simp
qed

lemma getBoard_lists:
  assumes "getBoard req bid now srv = (Response 200 (BoardData bv its tds), srv')"
  shows "its = map itemView (sort_key r_z_index (filter (\<lambda>r. r_board_id r = bid) (itemsTable srv)))"
    and "tds = map todoView (sort_key (\<lambda>t. - t_created_at t)
                               (filter (\<lambda>t. t_board_id t = bid) (todosTable srv)))"
proof -
  from assms obtain srv1 where a: "requireAuth req now srv = Inr srv1"
    by (auto simp: getBoard_def requireAuth_def split: sum.splits option.splits if_splits)
  note ra = requireAuth_tables [OF a]
  from assms a ra show "its = map itemView (sort_key r_z_index (filter (\<lambda>r. r_board_id r = bid) (itemsTable srv)))"
    by (auto simp: getBoard_def Let_def split: option.splits if_splits)
  from assms a ra show "tds = map todoView (sort_key (\<lambda>t. - t_created_at t)
                               (filter (\<lambda>t. t_board_id t = bid) (todosTable srv)))"
    by (auto simp: getBoard_def Let_def split: option.splits if_splits)
qed

lemma filter_board_item_rows:
  "filter (\<lambda>r. r_board_id r = bid) (map (itemRowOf bid now) its) = map (itemRowOf bid now) its"
  by (simp add: itemRowOf_def filter_map comp_def)

lemma filter_board_todo_rows:
  "filter (\<lambda>r. t_board_id r = bid) (map (todoRowOf bid now) tds) = map (todoRowOf bid now) tds"
  by (simp add: todoRowOf_def filter_map comp_def)

lemma itemView_itemRowOf:
  "itemView (itemRowOf bid now item) =
     \<lparr>iv_id = si_id item, iv_board_id = bid, iv_type = si_type item,
      iv_x = si_x item, iv_y = si_y item, iv_width = si_width item,
      iv_height = si_height item, iv_content = si_content item,
      iv_style = Some (case si_style item of None \<Rightarrow> [] | Some st \<Rightarrow> st),
      iv_z_index = Some (orInt (si_z_index item) 0),
      iv_created_at = orInt (si_created_at item) now, iv_updated_at = now\<rparr>"
  by (simp add: itemView_def itemRowOf_def JSON_stringify_def)

lemma todoView_todoRowOf:
  "todoView (todoRowOf bid now todo) =
     \<lparr>tv_id = st_id todo, tv_board_id = bid, tv_text = st_text todo,
      tv_completed = (st_completed todo = Some True),
      tv_priority = (if truthyStr (st_priority todo) then the (st_priority todo)
                     else ''medium''),
      tv_created_at = orInt (st_created_at todo) now, tv_updated_at = now\<rparr>"
  by (simp add: todoView_def todoRowOf_def)

text \<open>
  C4, as stated. A full sync followed by a fetch of the board does not return every
  field as sent: the handler stamps \<open>updated_at\<close> with its own clock. An item and a
  todo sent with \<open>updated_at = 1000\<close> in a sync served at 5000 come back with
  \<open>updated_at = 5000\<close>; every other field of the two is as sent.
\<close>

theorem sync_roundtrip_counterexample:
  "fst (postSync sampleRequest samplePayload 5000 sampleServerLoggedIn) = Response 200 (Synced 5000)
   \<and> fst (getBoard sampleRequest ''default'' 6000 afterSync)
       = Response 200
           (BoardData sampleBoardView
              [sampleItemView]
              [sampleTodoView])
   \<and> si_updated_at samplePayloadItem = Some 1000
   \<and> Some (iv_updated_at sampleItemView) \<noteq> si_updated_at samplePayloadItem"
  by (simp add: postSync_def getBoard_def syncTransaction_def syncBoardId_def requireAuth_def
      requestToken_def truthyStr_def insertItemRow_def insertTodoRow_def newBoardRow_def
      itemView_def todoView_def itemRowOf_def todoRowOf_def JSON_stringify_def orInt_def
      Let_def)

text \<open>
  C4, amended. When \<open>POST /sync\<close> succeeds and the following \<open>GET /board/:id\<close>
  of that board succeeds, the items returned are exactly the items sent, in some
  order (sorted by \<open>z_index\<close>), each with its id, type, position, size and content
  as sent, \<open>style\<close> as sent (an empty object when none was sent), \<open>z_index\<close> as
  sent (0 when missing), \<open>created_at\<close> as sent (the time of the sync when missing or
  0), \<open>board_id\<close> the synced board and \<open>updated_at\<close> the time of the sync. The
  todos returned are exactly the todos sent, newest first, with \<open>completed\<close> as a
  boolean, \<open>priority\<close> as sent (\<open>medium\<close> when missing or empty), and the same
  rule for the timestamps.
\<close>

theorem sync_then_getBoard:
  assumes sync: "postSync req b now srv = (Response 200 (Synced now), srv')"
    and get: "getBoard req' (syncBoardId b) now' srv'
                = (Response 200 (BoardData bv its tds), srv'')"
  shows "mset its =
           mset (map (\<lambda>item.
                   \<lparr>iv_id = si_id item, iv_board_id = syncBoardId b, iv_type = si_type item,
                    iv_x = si_x item, iv_y = si_y item, iv_width = si_width item,
                    iv_height = si_height item, iv_content = si_content item,
                    iv_style = Some (case si_style item of None \<Rightarrow> [] | Some st \<Rightarrow> st),
                    iv_z_index = Some (orInt (si_z_index item) 0),
                    iv_created_at = orInt (si_created_at item) now, iv_updated_at = now\<rparr>)
                 (case sb_items b of None \<Rightarrow> [] | Some l \<Rightarrow> l))
       \<and> mset tds =
           mset (map (\<lambda>todo.
                   \<lparr>tv_id = st_id todo, tv_board_id = syncBoardId b, tv_text = st_text todo,
                    tv_completed = (st_completed todo = Some True),
                    tv_priority = (if truthyStr (st_priority todo) then the (st_priority todo)
                                   else ''medium''),
                    tv_created_at = orInt (st_created_at todo) now, tv_updated_at = now\<rparr>)
                 (case sb_todos b of None \<Rightarrow> [] | Some l \<Rightarrow> l))
       \<and> sorted (map iv_z_index its)
       \<and> sorted (rev (map tv_created_at tds))"
proof -
  define bid where "bid = syncBoardId b"
  define pis where "pis = (case sb_items b of None \<Rightarrow> [] | Some l \<Rightarrow> l)"
  define pts where "pts = (case sb_todos b of None \<Rightarrow> [] | Some l \<Rightarrow> l)"
  have its: "its = map itemView (sort_key r_z_index (map (itemRowOf bid now) pis))"
    using getBoard_lists(1) [OF get] postSync_tables(1) [OF sync]
    by (simp add: filter_board_item_rows bid_def pis_def)
  have tds: "tds = map todoView (sort_key (\<lambda>t. - t_created_at t) (map (todoRowOf bid now) pts))"
    using getBoard_lists(2) [OF get] postSync_tables(2) [OF sync]
    by (simp add: filter_board_todo_rows bid_def pts_def)
  have m1: "mset its = mset (map (\<lambda>item. itemView (itemRowOf bid now item)) pis)"
    unfolding its by (simp add: multiset.map_comp comp_def)
  have m2: "mset tds = mset (map (\<lambda>todo. todoView (todoRowOf bid now todo)) pts)"
    unfolding tds by (simp add: multiset.map_comp comp_def)
  have "map iv_z_index its = map r_z_index (sort_key r_z_index (map (itemRowOf bid now) pis))"
    unfolding its by (simp add: itemView_def comp_def)
  then have s1: "sorted (map iv_z_index its)"
    by simp
  have "map (\<lambda>t. - tv_created_at t) tds =
          map (\<lambda>t. - t_created_at t)
            (sort_key (\<lambda>t. - t_created_at t) (map (todoRowOf bid now) pts))"
    unfolding tds by (simp add: todoView_def comp_def)
  then have "sorted (map (\<lambda>t. - tv_created_at t) tds)"
    by simp
  then have "sorted (map uminus (map tv_created_at tds))"
    by (simp add: comp_def)
  then have s2: "sorted (rev (map tv_created_at tds))"
    by (simp add: sorted_wrt_rev sorted_map sorted_wrt_map)
  show ?thesis
    using m1 m2 s1 s2
    unfolding itemView_itemRowOf todoView_todoRowOf bid_def pis_def pts_def
    by simp
qed

theorem sync_then_getBoard_witness:
  "fst (postSync sampleRequest samplePayload 5000 sampleServerLoggedIn) = Response 200 (Synced 5000)
   \<and> fst (getBoard sampleRequest (syncBoardId samplePayload) 6000 afterSync)
       = Response 200 (BoardData sampleBoardView [sampleItemView] [sampleTodoView])
   \<and> mset [sampleItemView]
       = mset (map (\<lambda>item.
                   \<lparr>iv_id = si_id item, iv_board_id = ''default'', iv_type = si_type item,
                    iv_x = si_x item, iv_y = si_y item, iv_width = si_width item,
                    iv_height = si_height item, iv_content = si_content item,
                    iv_style = Some (case si_style item of None \<Rightarrow> [] | Some st \<Rightarrow> st),
                    iv_z_index = Some (orInt (si_z_index item) 0),
                    iv_created_at = orInt (si_created_at item) 5000, iv_updated_at = 5000\<rparr>)
                 [samplePayloadItem])"
proof -
  have h1: "postSync sampleRequest samplePayload 5000 sampleServerLoggedIn
              = (Response 200 (Synced 5000), afterSync)"
    by (rule prod_eqI)
      (simp_all add: postSync_def syncTransaction_def syncBoardId_def requireAuth_def
        requestToken_def truthyStr_def insertItemRow_def insertTodoRow_def newBoardRow_def
        itemRowOf_def todoRowOf_def Let_def)
  have h2: "getBoard sampleRequest (syncBoardId samplePayload) 6000 afterSync
              = (Response 200 (BoardData sampleBoardView [sampleItemView] [sampleTodoView]),
                 snd (getBoard sampleRequest (syncBoardId samplePayload) 6000 afterSync))"
    by (rule prod_eqI)
      (simp_all add: postSync_def getBoard_def syncTransaction_def syncBoardId_def
        requireAuth_def requestToken_def truthyStr_def insertItemRow_def insertTodoRow_def
        newBoardRow_def itemView_def todoView_def itemRowOf_def todoRowOf_def
        JSON_stringify_def orInt_def Let_def)
  have f1: "fst (postSync sampleRequest samplePayload 5000 sampleServerLoggedIn) = Response 200 (Synced 5000)"
    by (subst h1) simp
  have f2: "fst (getBoard sampleRequest (syncBoardId samplePayload) 6000 afterSync)
       = Response 200 (BoardData sampleBoardView [sampleItemView] [sampleTodoView])"
    by (subst h2) simp
  have sb: "syncBoardId samplePayload = ''default''"
    by (simp add: syncBoardId_def)
  from sync_then_getBoard [OF h1 h2, unfolded sb]
  have f3: "mset [sampleItemView] = mset (map (\<lambda>item.
                   \<lparr>iv_id = si_id item, iv_board_id = ''default'', iv_type = si_type item,
                    iv_x = si_x item, iv_y = si_y item, iv_width = si_width item,
                    iv_height = si_height item, iv_content = si_content item,
                    iv_style = Some (case si_style item of None \<Rightarrow> [] | Some st \<Rightarrow> st),
                    iv_z_index = Some (orInt (si_z_index item) 0),
                    iv_created_at = orInt (si_created_at item) 5000, iv_updated_at = 5000\<rparr>)
                 [samplePayloadItem])"
    by simp
  show ?thesis
    using f1 f2 f3 by blast
qed

end
